theory Spec2Isabelle
  imports Complex_Main "HOL-Library.Multiset"
begin

section \<open>Colour calibration of Surround360: a shallow embedding\<close>

text \<open>
  The definitions below follow \<^verbatim>\<open>ColorCalibration.cpp\<close>. Conventions of the embedding:
  \<^item> \<^verbatim>\<open>float\<close> and \<^verbatim>\<open>double\<close> values are real numbers: rounding, infinities and NaN are
    not modelled, the arithmetic is the exact one the code writes down;
  \<^item> a \<^verbatim>\<open>cv::Mat\<close> is a list of rows tagged with its element type;
  \<^item> a thrown \<^verbatim>\<open>VrCamException\<close> is the value \<open>Inl (VrCamException msg)\<close>; an access outside
    a container, which C++ leaves undefined and which raises nothing, is the value
    \<open>Inl (Undefined IndexOutOfRange)\<close>; reading a \<^verbatim>\<open>cv::Mat\<close> at another element type
    than its own is \<open>Inl BadMatType\<close>;
  \<^item> a division by zero yields 0, as everywhere in HOL, where the floating-point division
    yields an infinity or NaN;
  \<^item> the products and sums of \<^verbatim>\<open>int\<close> values in the detection of the chart wrap around at 32
    bits, as the compiled program does;
  \<^item> the debug output is switched off (\<^verbatim>\<open>saveDebugImages = false\<close>), logging is left out;
  \<^item> the primitives of the image library and of the camera ISP are parameters.
\<close>

subsection \<open>Errors and containers\<close>

datatype undefined_behaviour = IndexOutOfRange | FloatToIntOverflow

datatype error = VrCamException string | Undefined undefined_behaviour | BadMatType

definition ebind :: "error + 'a \<Rightarrow> ('a \<Rightarrow> error + 'b) \<Rightarrow> error + 'b" where
  "ebind m f = (case m of Inl e \<Rightarrow> Inl e | Inr x \<Rightarrow> f x)"

text \<open>\<^verbatim>\<open>v[i]\<close> on a \<^verbatim>\<open>std::vector\<close>, with an \<^verbatim>\<open>int\<close> index.\<close>

definition vec_at :: "'a list \<Rightarrow> int \<Rightarrow> error + 'a" where
  "vec_at v i = (if 0 \<le> i \<and> i < int (length v) then Inr (v ! nat i) else Inl (Undefined IndexOutOfRange))"

text \<open>\<^verbatim>\<open>v[i] = x\<close> on a \<^verbatim>\<open>std::vector\<close>.\<close>

definition vec_set :: "'a list \<Rightarrow> int \<Rightarrow> 'a \<Rightarrow> error + 'a list" where
  "vec_set v i x =
     (if 0 \<le> i \<and> i < int (length v) then Inr (v[nat i := x]) else Inl (Undefined IndexOutOfRange))"

datatype Vec3f = Vec3f real real real

fun vidx :: "Vec3f \<Rightarrow> nat \<Rightarrow> real" where
  "vidx (Vec3f a b c) ch = (if ch = 0 then a else if ch = 1 then b else c)"

fun vset :: "Vec3f \<Rightarrow> nat \<Rightarrow> real \<Rightarrow> Vec3f" where
  "vset (Vec3f a b c) ch x =
     (if ch = 0 then Vec3f x b c else if ch = 1 then Vec3f a x c else Vec3f a b x)"

definition kNumChannels :: nat where
  "kNumChannels = 3"

text \<open>\<^verbatim>\<open>cv::norm\<close> of a \<^verbatim>\<open>Vec3f\<close> and of a \<^verbatim>\<open>Point2f\<close>.\<close>

fun norm3 :: "Vec3f \<Rightarrow> real" where
  "norm3 (Vec3f a b c) = sqrt (a * a + b * b + c * c)"

fun vsub :: "Vec3f \<Rightarrow> Vec3f \<Rightarrow> Vec3f" where
  "vsub (Vec3f a b c) (Vec3f a' b' c') = Vec3f (a - a') (b - b') (c - c')"

type_synonym Point2f = "real \<times> real"

type_synonym Point = "int \<times> int"

definition norm2 :: "Point2f \<Rightarrow> real" where
  "norm2 p = sqrt (fst p * fst p + snd p * snd p)"

definition psub :: "Point2f \<Rightarrow> Point2f \<Rightarrow> Point2f" where
  "psub p q = (fst p - fst q, snd p - snd q)"

definition FLT_MAX :: real where
  "FLT_MAX = (2 ^ 24 - 1) * 2 ^ 104"

definition DBL_MAX :: real where
  "DBL_MAX = (2 ^ 53 - 1) * 2 ^ 971"

text \<open>
  \<^verbatim>\<open>cvRound\<close>, which converts a \<^verbatim>\<open>Point2f\<close> to a \<^verbatim>\<open>Point\<close>: to the nearest integer,
  halves to the even one.
\<close>

definition cvRound :: "real \<Rightarrow> int" where
  "cvRound x =
     (let f = \<lfloor>x\<rfloor>
      in if x - of_int f < 1 / 2 then f
         else if x - of_int f > 1 / 2 then f + 1
         else if even f then f else f + 1)"

definition toPoint :: "Point2f \<Rightarrow> Point" where
  "toPoint p = (cvRound (fst p), cvRound (snd p))"

subsection \<open>Images\<close>

datatype Mat =
    Mat8U "nat list list"
  | Mat16U "nat list list"
  | Mat32F "real list list"
  | Mat32FC3 "Vec3f list list"

fun getBitsPerPixel :: "Mat \<Rightarrow> int" where
  "getBitsPerPixel (Mat8U d) = 8"
| "getBitsPerPixel img = 16"

text \<open>\<^verbatim>\<open>image.at<T>(p)\<close>: row \<open>p.y\<close>, column \<open>p.x\<close>.\<close>

definition mat_at :: "'a list list \<Rightarrow> Point \<Rightarrow> error + 'a" where
  "mat_at d p = ebind (vec_at d (snd p)) (\<lambda>row. vec_at row (fst p))"

fun at_float :: "Mat \<Rightarrow> Point \<Rightarrow> error + real" where
  "at_float (Mat32F d) p = mat_at d p"
| "at_float img p = Inl BadMatType"

fun at_Vec3f :: "Mat \<Rightarrow> Point \<Rightarrow> error + Vec3f" where
  "at_Vec3f (Mat32FC3 d) p = mat_at d p"
| "at_Vec3f img p = Inl BadMatType"

text \<open>\<^verbatim>\<open>cv::findNonZero\<close>: the positions of the non-zero pixels of a mask, row by row.\<close>

definition nonZeroRow :: "nat \<Rightarrow> nat list \<Rightarrow> Point list" where
  "nonZeroRow y row =
     map (\<lambda>xv. (int (fst xv), int y)) (filter (\<lambda>xv. snd xv \<noteq> 0) (enumerate 0 row))"

fun findNonZero :: "Mat \<Rightarrow> error + Point list" where
  "findNonZero (Mat8U d) = Inr (concat (map (\<lambda>yr. nonZeroRow (fst yr) (snd yr)) (enumerate 0 d)))"
| "findNonZero img = Inl BadMatType"

subsection \<open>The camera ISP and the file system\<close>

text \<open>
  \<^verbatim>\<open>CameraIsp\<close> is declared outside the sources at hand. An ISP object is the record of
  the operations the calibration calls on it; \<open>newCameraIsp\<close> is its constructor, from the
  text of a configuration file and the number of bits per pixel.
\<close>

record CameraIsp =
  redPixel :: "int \<Rightarrow> int \<Rightarrow> bool"
  greenPixel :: "int \<Rightarrow> int \<Rightarrow> bool"
  loadedRawImage :: "Mat \<Rightarrow> Mat"
  clampedAndStretched :: "Vec3f \<Rightarrow> Vec3f \<Rightarrow> Mat \<Rightarrow> Mat \<Rightarrow> Mat"

record world =
  files :: "string \<Rightarrow> string option"
  newCameraIsp :: "string \<Rightarrow> int \<Rightarrow> CameraIsp"

definition getJson :: "world \<Rightarrow> string \<Rightarrow> error + string" where
  "getJson w filename =
     (case files w filename of
        None \<Rightarrow> Inl (VrCamException (''file read failed: '' @ filename))
      | Some json \<Rightarrow> Inr json)"

definition getRaw :: "world \<Rightarrow> string \<Rightarrow> Mat \<Rightarrow> error + Mat" where
  "getRaw w ispConfigFile img =
     ebind (getJson w ispConfigFile) (\<lambda>json.
       Inr (loadedRawImage (newCameraIsp w json (getBitsPerPixel img)) img))"

subsection \<open>Patch statistics\<close>

record ColorPatch =
  centroid :: Point2f
  mask :: Mat
  rgbMedian :: Vec3f

definition channelOf :: "CameraIsp \<Rightarrow> Point \<Rightarrow> nat" where
  "channelOf cameraIsp p =
     (if redPixel cameraIsp (snd p) (fst p) then 0
      else if greenPixel cameraIsp (snd p) (fst p) then 1 else 2)"

text \<open>\<open>RGBs[ch].push_back(v)\<close> on the vector of the three channel buckets.\<close>

definition push_back_ch :: "real list list \<Rightarrow> nat \<Rightarrow> real \<Rightarrow> real list list" where
  "push_back_ch RGBs ch v = RGBs[ch := RGBs ! ch @ [v]]"

fun populateChannels ::
  "CameraIsp \<Rightarrow> Mat \<Rightarrow> bool \<Rightarrow> Point list \<Rightarrow> real list list \<Rightarrow> error + real list list" where
  "populateChannels cameraIsp img isRaw [] RGBs = Inr RGBs"
| "populateChannels cameraIsp img isRaw (p # locs) RGBs =
     (if isRaw then
        ebind (at_float img p) (\<lambda>valRaw.
          populateChannels cameraIsp img isRaw locs
            (push_back_ch RGBs (channelOf cameraIsp p) valRaw))
      else
        ebind (at_Vec3f img p) (\<lambda>val.
          populateChannels cameraIsp img isRaw locs
            (fold (\<lambda>ch acc. push_back_ch acc ch (vidx val ch)) [0..<kNumChannels] RGBs)))"

text \<open>
  \<^verbatim>\<open>std::nth_element\<close> at position \<open>size / 2\<close>, then the read of that position: the
  element a sorted bucket has there. On an empty bucket the read is outside the vector.
\<close>

definition medianOfBucket :: "real list \<Rightarrow> error + real" where
  "medianOfBucket bucket = vec_at (sort bucket) (int (length bucket div 2))"

fun medianChannels :: "real list list \<Rightarrow> nat list \<Rightarrow> Vec3f \<Rightarrow> error + Vec3f" where
  "medianChannels RGBs [] median = Inr median"
| "medianChannels RGBs (ch # chs) median =
     ebind (medianOfBucket (RGBs ! ch)) (\<lambda>m.
       medianChannels RGBs chs (vset median ch m))"

definition getRgbMedianMask :: "world \<Rightarrow> Mat \<Rightarrow> Mat \<Rightarrow> string \<Rightarrow> bool \<Rightarrow> error + Vec3f" where
  "getRgbMedianMask w img msk ispConfigFile isRaw =
     ebind (findNonZero msk) (\<lambda>locs.
     ebind (getJson w ispConfigFile) (\<lambda>json.
     ebind (populateChannels (newCameraIsp w json (getBitsPerPixel img)) img isRaw locs
              (replicate kNumChannels [])) (\<lambda>RGBs.
       medianChannels RGBs [0..<kNumChannels] (Vec3f (- 1) (- 1) (- 1)))))"

fun computeRGBMedians ::
  "world \<Rightarrow> ColorPatch list \<Rightarrow> Mat \<Rightarrow> bool \<Rightarrow> string \<Rightarrow> error + ColorPatch list" where
  "computeRGBMedians w [] img isRaw ispConfigFile = Inr []"
| "computeRGBMedians w (cp # colorPatches) img isRaw ispConfigFile =
     ebind (getRgbMedianMask w img (mask cp) ispConfigFile isRaw) (\<lambda>m.
     ebind (computeRGBMedians w colorPatches img isRaw ispConfigFile) (\<lambda>rest.
       Inr (cp\<lparr>rgbMedian := m\<rparr> # rest)))"

subsection \<open>The reference chart\<close>

text \<open>
  \<^verbatim>\<open>rgbLinearMacbeth\<close> is declared in a header that is not part of the sources at hand;
  it is a parameter \<open>tbl\<close> of every function that reads it.
\<close>

definition kNumGrayPatches :: int where
  "kNumGrayPatches = 5"

function getMacBethGrays_loop ::
  "int list list \<Rightarrow> int \<Rightarrow> int \<Rightarrow> int list \<Rightarrow> error + int list" where
  "getMacBethGrays_loop tbl iStart i macBethGrayValues =
     (if i \<ge> iStart - kNumGrayPatches then
        ebind (vec_at tbl i) (\<lambda>row.
        ebind (vec_at row 0) (\<lambda>g.
          getMacBethGrays_loop tbl iStart (i - 1) (macBethGrayValues @ [g])))
      else Inr macBethGrayValues)"
  by pat_completeness auto
termination
  by (relation "measure (\<lambda>(tbl, iStart, i, acc). nat (i - (iStart - kNumGrayPatches) + 1))") auto

declare getMacBethGrays_loop.simps [simp del]

definition getMacBethGrays :: "int list list \<Rightarrow> error + int list" where
  "getMacBethGrays tbl =
     (let iStart = int (length tbl) - 1
      in getMacBethGrays_loop tbl iStart iStart [])"

subsection \<open>The response of the sensor\<close>

record ColorResponse =
  rgbSlope :: Vec3f
  rgbInterceptY :: Vec3f
  rgbInterceptXMin :: Vec3f
  rgbInterceptXMax :: Vec3f

definition kBrightIdx :: int where
  "kBrightIdx = 4"

definition kDarkIdx :: int where
  "kDarkIdx = 1"

text \<open>The body of the loop over the channels: each response is \<open>y = m x + b\<close>.\<close>

definition responseChannel ::
  "real \<Rightarrow> real \<Rightarrow> Vec3f \<Rightarrow> Vec3f \<Rightarrow> nat \<Rightarrow> ColorResponse \<Rightarrow> ColorResponse" where
  "responseChannel xDark xBright yDark yBright ch r =
     (let r1 = r\<lparr>rgbSlope :=
                 vset (rgbSlope r) ch ((vidx yBright ch - vidx yDark ch) / (xBright - xDark))\<rparr>;
          r2 = r1\<lparr>rgbInterceptY :=
                 vset (rgbInterceptY r1) ch (- vidx (rgbSlope r1) ch * xDark + vidx yDark ch)\<rparr>;
          r3 = r2\<lparr>rgbInterceptXMin :=
                 vset (rgbInterceptXMin r2) ch (- vidx (rgbInterceptY r2) ch / vidx (rgbSlope r2) ch)\<rparr>
      in r3\<lparr>rgbInterceptXMax :=
                 vset (rgbInterceptXMax r3) ch
                   ((1 - vidx (rgbInterceptY r3) ch) / vidx (rgbSlope r3) ch)\<rparr>)"

definition zeroResponse :: ColorResponse where
  "zeroResponse =
     \<lparr>rgbSlope = Vec3f 0 0 0, rgbInterceptY = Vec3f 0 0 0,
      rgbInterceptXMin = Vec3f 0 0 0, rgbInterceptXMax = Vec3f 0 0 0\<rparr>"

text \<open>
  \<^verbatim>\<open>computeRGBResponse\<close> refreshes the medians of the patches it is given, so it returns
  the patches next to the response.
\<close>

definition computeRGBResponse ::
  "world \<Rightarrow> int list list \<Rightarrow> Mat \<Rightarrow> bool \<Rightarrow> ColorPatch list \<Rightarrow> string \<Rightarrow>
     error + (ColorPatch list \<times> ColorResponse)" where
  "computeRGBResponse w tbl raw isRaw colorPatches ispConfigFile =
     ebind (computeRGBMedians w colorPatches raw isRaw ispConfigFile) (\<lambda>colorPatches1.
     ebind (getMacBethGrays tbl) (\<lambda>macBethGrayValues.
     let iStart = int (length colorPatches1) - 1 in
     ebind (vec_at macBethGrayValues kDarkIdx) (\<lambda>gDark.
     ebind (vec_at macBethGrayValues kBrightIdx) (\<lambda>gBright.
     ebind (vec_at colorPatches1 (iStart - kDarkIdx)) (\<lambda>pDark.
     ebind (vec_at colorPatches1 (iStart - kBrightIdx)) (\<lambda>pBright.
       Inr (colorPatches1,
            fold (responseChannel (real_of_int gDark / 255) (real_of_int gBright / 255)
                    (rgbMedian pDark) (rgbMedian pBright))
              [0..<kNumChannels] zeroResponse)))))))"

subsection \<open>Clamp bounds\<close>

text \<open>\<open>m * x + b\<close> on vectors: a vector times a scalar, plus a vector.\<close>

fun vscale_add :: "Vec3f \<Rightarrow> real \<Rightarrow> Vec3f \<Rightarrow> Vec3f" where
  "vscale_add (Vec3f m0 m1 m2) x (Vec3f b0 b1 b2) = Vec3f (m0 * x + b0) (m1 * x + b1) (m2 * x + b2)"

definition clampChannel :: "nat \<Rightarrow> Vec3f \<times> Vec3f \<Rightarrow> Vec3f \<times> Vec3f" where
  "clampChannel ch mm =
     (vset (fst mm) ch (max 0 (vidx (fst mm) ch)), vset (snd mm) ch (min 1 (vidx (snd mm) ch)))"

text \<open>
  \<^verbatim>\<open>clampAndStretch\<close> writes the clamp bounds back through its two reference parameters
  before it opens the configuration file: the bounds are returned next to the outcome of
  the ISP.
\<close>

definition clampAndStretch ::
  "world \<Rightarrow> string \<Rightarrow> Mat \<Rightarrow> Mat \<Rightarrow> ColorResponse \<Rightarrow> Vec3f \<Rightarrow> Vec3f \<Rightarrow>
     (Vec3f \<times> Vec3f) \<times> (error + Mat)" where
  "clampAndStretch w ispConfigFile rawRef raw colorResponse rgbClampMin rgbClampMax =
     (let m = rgbSlope colorResponse;
          b = rgbInterceptY colorResponse;
          xMin = vidx rgbClampMin 0;
          xMax = vidx rgbClampMax 0;
          mm = fold clampChannel [0..<kNumChannels] (vscale_add m xMin b, vscale_add m xMax b)
      in (mm,
          ebind (getJson w ispConfigFile) (\<lambda>json.
            Inr (clampedAndStretched (newCameraIsp w json (getBitsPerPixel raw))
                   (fst mm) (snd mm) rawRef raw))))"

subsection \<open>Primitives of the image library\<close>

text \<open>
  A contour is the list of its vertices. The geometric primitives that the calibration
  calls on contours are the fields of a record: \<^verbatim>\<open>contourArea\<close>, the radius that
  \<^verbatim>\<open>minEnclosingCircle\<close> returns, the mask that \<^verbatim>\<open>drawContours\<close> fills for the contour of
  an index, the centre, width and height of the rectangle of \<^verbatim>\<open>minAreaRect\<close>, the moment
  \<open>m00\<close>, \<^verbatim>\<open>isContourConvex\<close>, and the mask filled over \<^verbatim>\<open>boundingRect\<close>.
\<close>

type_synonym Contour = "Point list"

record cvlib =
  contourArea :: "Contour \<Rightarrow> real"
  minEnclosingCircleRadius :: "Contour \<Rightarrow> real"
  drawContoursFilled :: "Contour list \<Rightarrow> nat \<Rightarrow> Mat"
  minAreaRect :: "Contour \<Rightarrow> Point2f \<times> real \<times> real"
  momentsM00 :: "Contour \<Rightarrow> real"
  isContourConvex :: "Contour \<Rightarrow> bool"
  boundingRectMask :: "Contour \<Rightarrow> Mat"

text \<open>
  The conversion of a floating-point value to \<^verbatim>\<open>int\<close>: truncation, undefined outside the
  range of \<^verbatim>\<open>int\<close>.
\<close>

definition toInt :: "real \<Rightarrow> error + int" where
  "toInt x =
     (if - (2 ^ 31) - 1 < x \<and> x < 2 ^ 31 then Inr (if 0 \<le> x then \<lfloor>x\<rfloor> else \<lceil>x\<rceil>)
      else Inl (Undefined FloatToIntOverflow))"

subsection \<open>Black level\<close>

definition kNumPixelsMin :: int where
  "kNumPixelsMin = 50"

definition kMinNumVertices :: int where
  "kMinNumVertices = 10"

definition kMaxRatioAreas :: real where
  "kMaxRatioAreas = 1 / 2"

text \<open>
  The loop that filters the contours. The quotient \<open>contArea / circleArea\<close> is evaluated
  only where \<open>contArea\<close> is at least 50, so a zero \<open>circleArea\<close> gives an infinite quotient
  there, which is not below the bound.
\<close>

fun filterBlackHoleContours :: "cvlib \<Rightarrow> Contour list \<Rightarrow> error + Contour list" where
  "filterBlackHoleContours cv [] = Inr []"
| "filterBlackHoleContours cv (cont # contours) =
     ebind (toInt (contourArea cv cont)) (\<lambda>contArea.
       let circleRadius = minEnclosingCircleRadius cv cont;
           circleArea = pi * circleRadius * circleRadius
       in if contArea < kNumPixelsMin \<or>
             int (length cont) < kMinNumVertices \<or>
             (circleArea \<noteq> 0 \<and> real_of_int contArea / circleArea < kMaxRatioAreas)
          then filterBlackHoleContours cv contours
          else ebind (filterBlackHoleContours cv contours) (\<lambda>contoursFiltered.
                 Inr (cont # contoursFiltered)))"

text \<open>
  The loop over the filtered contours; its state is the vector \<open>blackLevels\<close>, \<open>minNorm\<close>
  and \<open>minNormIdx\<close>.
\<close>

fun blackLevelLoop ::
  "world \<Rightarrow> cvlib \<Rightarrow> string \<Rightarrow> Mat \<Rightarrow> Contour list \<Rightarrow> nat list \<Rightarrow>
     Vec3f list \<times> real \<times> int \<Rightarrow> error + (Vec3f list \<times> real \<times> int)" where
  "blackLevelLoop w cv ispConfigFile raw16 contoursFiltered [] st = Inr st"
| "blackLevelLoop w cv ispConfigFile raw16 contoursFiltered (i # is) st =
     ebind (getRaw w ispConfigFile raw16) (\<lambda>rawNormalized.
     ebind (getRgbMedianMask w rawNormalized (drawContoursFilled cv contoursFiltered i)
              ispConfigFile True) (\<lambda>bl.
     ebind (vec_set (fst st) (int i) bl) (\<lambda>blackLevels.
       let blackLevelNorm = norm3 bl
       in if blackLevelNorm < fst (snd st)
          then blackLevelLoop w cv ispConfigFile raw16 contoursFiltered is
                 (blackLevels, blackLevelNorm, int i)
          else blackLevelLoop w cv ispConfigFile raw16 contoursFiltered is
                 (blackLevels, snd st))))"

text \<open>
  \<^verbatim>\<open>findBlackLevel\<close>, from the contours of the black-hole mask on: the split of the frame
  into channels, the histograms, the mask and its contours are computed by primitives of
  the image library, and \<open>contours\<close> is their result. The ISP object is constructed before
  that, which reads the configuration file.
\<close>

definition findBlackLevel ::
  "world \<Rightarrow> cvlib \<Rightarrow> Mat \<Rightarrow> Contour list \<Rightarrow> string \<Rightarrow> error + Vec3f" where
  "findBlackLevel w cv raw16 contours ispConfigFile =
     ebind (getJson w ispConfigFile) (\<lambda>json.
     ebind (filterBlackHoleContours cv contours) (\<lambda>contoursFiltered.
     ebind (blackLevelLoop w cv ispConfigFile raw16 contoursFiltered
              [0..<length contoursFiltered]
              (replicate (length contoursFiltered) (Vec3f 0 0 0), DBL_MAX, 0)) (\<lambda>st.
       vec_at (fst st) (snd (snd st)))))"

subsection \<open>Outliers among the patches\<close>

fun minDistanceLoop :: "ColorPatch list \<Rightarrow> nat \<Rightarrow> nat list \<Rightarrow> real \<Rightarrow> real" where
  "minDistanceLoop colorPatchList iPatch [] d = d"
| "minDistanceLoop colorPatchList iPatch (jPatch # js) d =
     (if iPatch = jPatch then minDistanceLoop colorPatchList iPatch js d
      else
        let ci = centroid (colorPatchList ! iPatch);
            cj = centroid (colorPatchList ! jPatch);
            distance = norm2 (psub ci cj)
        in minDistanceLoop colorPatchList iPatch js (if distance < d then distance else d))"

definition minDistancesOf :: "ColorPatch list \<Rightarrow> real list" where
  "minDistancesOf colorPatchList =
     map (\<lambda>iPatch. minDistanceLoop colorPatchList iPatch [0..<length colorPatchList] FLT_MAX)
       [0..<length colorPatchList]"

fun discardLoop ::
  "ColorPatch list \<Rightarrow> real list \<Rightarrow> real \<Rightarrow> nat list \<Rightarrow> ColorPatch list \<Rightarrow> ColorPatch list" where
  "discardLoop colorPatchList minDistances maxDistanceThreshold [] colorPatchListClean =
     colorPatchListClean"
| "discardLoop colorPatchList minDistances maxDistanceThreshold (iPatch # is) colorPatchListClean =
     discardLoop colorPatchList minDistances maxDistanceThreshold is
       (if minDistances ! iPatch < maxDistanceThreshold
        then colorPatchListClean @ [colorPatchList ! iPatch]
        else colorPatchListClean)"

definition removeContourOutliers :: "ColorPatch list \<Rightarrow> error + ColorPatch list" where
  "removeContourOutliers colorPatchList =
     (let minDistances = minDistancesOf colorPatchList;
          minDistancesSorted = sort minDistances
      in ebind (vec_at minDistancesSorted (int (length minDistancesSorted div 2)))
           (\<lambda>minDistanceMedian.
              Inr (discardLoop colorPatchList minDistances (2 * minDistanceMedian)
                     [0..<length colorPatchList] [])))"

subsection \<open>The order of the patches\<close>

definition findTopLeft :: "Point2f list \<Rightarrow> Point2f" where
  "findTopLeft points =
     fold (\<lambda>p topLeft. if norm2 (psub (0, 0) p) < norm2 (psub (0, 0) topLeft) then p else topLeft)
       points (FLT_MAX, FLT_MAX)"

definition findTopRight :: "Point2f list \<Rightarrow> int \<Rightarrow> Point2f" where
  "findTopRight points imageWidth =
     fold (\<lambda>p topRight.
             if norm2 (psub (real_of_int imageWidth, 0) p)
                  < norm2 (psub (real_of_int imageWidth, 0) topRight)
             then p else topRight)
       points (- 1, FLT_MAX)"

definition pointToLineDistance :: "Point2f \<Rightarrow> Point2f \<Rightarrow> Point2f \<Rightarrow> real" where
  "pointToLineDistance p pLine1 pLine2 =
     (let n1 = (snd pLine2 - snd pLine1) * fst p;
          n2 = (fst pLine2 - fst pLine1) * snd p;
          n3 = fst pLine2 * snd pLine1;
          n4 = snd pLine2 * fst pLine1
      in \<bar>n1 - n2 + n3 - n4\<bar> / norm2 (psub pLine1 pLine2))"

text \<open>
  One turn of the loop of \<^verbatim>\<open>sortPatches\<close>: the row that is taken off, sorted by the
  integer abscissa, and the centroids that remain. \<^verbatim>\<open>std::sort\<close> leaves the order of
  elements that compare equal open; the model sorts stably.
\<close>

definition takeRow :: "int \<Rightarrow> int \<Rightarrow> Point2f list \<Rightarrow> Point2f list \<times> Point2f list" where
  "takeRow numSquaresW imageWidth centroids =
     (let pLine1 = findTopLeft centroids;
          pLine2 = findTopRight centroids imageWidth;
          centroids1 = sort_key (\<lambda>p. pointToLineDistance p pLine1 pLine2) centroids;
          centroidsRow = take (nat numSquaresW) centroids1
      in (sort_key (\<lambda>pt. fst (toPoint pt)) centroidsRow, drop (length centroidsRow) centroids1))"

text \<open>The loop runs while centroids remain; \<open>None\<close> is a loop that never ends.\<close>

partial_function (option) sortPatchesLoop ::
  "int \<Rightarrow> int \<Rightarrow> Point2f list \<Rightarrow> Point2f list \<Rightarrow> Point2f list option" where
  "sortPatchesLoop numSquaresW imageWidth centroids centroidsSorted =
     (if length centroids > 0 then
        (case takeRow numSquaresW imageWidth centroids of
           (centroidsRow, rest) \<Rightarrow>
             sortPatchesLoop numSquaresW imageWidth rest (centroidsSorted @ centroidsRow))
      else Some centroidsSorted)"

definition reorderPatches :: "ColorPatch list \<Rightarrow> Point2f list \<Rightarrow> ColorPatch list" where
  "reorderPatches colorPatchList centroidsSorted =
     concat (map (\<lambda>c. case find (\<lambda>cp. centroid cp = c) colorPatchList of
                          None \<Rightarrow> [] | Some cp \<Rightarrow> [cp]) centroidsSorted)"

definition sortPatches :: "ColorPatch list \<Rightarrow> int \<Rightarrow> int \<Rightarrow> ColorPatch list option" where
  "sortPatches colorPatchList numSquaresW imageWidth =
     map_option (reorderPatches colorPatchList)
       (sortPatchesLoop numSquaresW imageWidth (map centroid colorPatchList) [])"

subsection \<open>Detection of the chart\<close>

text \<open>
  \<^verbatim>\<open>detectColorChart\<close>, from the connected components on: the blur, the threshold, the
  morphology and the labelling are primitives of the image library. Their result is the
  size of the binary image, one row of statistics for each label (label 0 included), and
  for each label the straightened contours of its mask.
\<close>

record LabelStats =
  CC_STAT_AREA :: int
  CC_STAT_TOP :: int
  CC_STAT_LEFT :: int
  CC_STAT_WIDTH :: int
  CC_STAT_HEIGHT :: int

record Components =
  bwCols :: int
  bwRows :: int
  stats :: "LabelStats list"
  contoursOfLabel :: "nat \<Rightarrow> Contour list"

text \<open>The value of an \<^verbatim>\<open>int\<close> expression: the 32 low bits of the result, signed.\<close>

definition int32 :: "int \<Rightarrow> int" where
  "int32 x = (x + 2 ^ 31) mod 2 ^ 32 - 2 ^ 31"

definition kFracErrorX :: real where
  "kFracErrorX = 1 / 10"

text \<open>
  \<open>contours.size() >= numSquaresW * numSquaresH\<close> multiplies in \<^verbatim>\<open>int\<close> and compares in
  \<^verbatim>\<open>size_t\<close>: a negative product becomes a number beyond every size.
\<close>

definition enoughContours :: "Contour list \<Rightarrow> int \<Rightarrow> int \<Rightarrow> bool" where
  "enoughContours contours numSquaresW numSquaresH =
     (let n = int32 (numSquaresW * numSquaresH)
      in int (length contours) \<ge> (if n < 0 then n + 2 ^ 64 else n))"

fun findChart :: "Components \<Rightarrow> int \<Rightarrow> int \<Rightarrow> nat list \<Rightarrow> Contour list option" where
  "findChart cc numSquaresW numSquaresH [] = None"
| "findChart cc numSquaresW numSquaresH (label # labels) =
     (let imSize = real_of_int (int32 (bwCols cc * bwRows cc));
          minNumPixels = 1 / 100 * imSize;
          maxAreaChart = 4 / 10 * imSize;
          center = (bwCols cc div 2, bwRows cc div 2);
          numPixels = CC_STAT_AREA (stats cc ! label);
          top = CC_STAT_TOP (stats cc ! label);
          left = CC_STAT_LEFT (stats cc ! label);
          width = CC_STAT_WIDTH (stats cc ! label);
          height = CC_STAT_HEIGHT (stats cc ! label)
      in if real_of_int numPixels < minNumPixels then
           findChart cc numSquaresW numSquaresH labels
         else if real_of_int left > (1 + kFracErrorX) * real_of_int (fst center) \<or>
                 top > snd center \<or>
                 real_of_int (int32 (left + width)) < (1 - kFracErrorX) * real_of_int (fst center) \<or>
                 int32 (top + height) < snd center then
           findChart cc numSquaresW numSquaresH labels
         else if real_of_int (int32 (width * height)) > maxAreaChart then
           findChart cc numSquaresW numSquaresH labels
         else if enoughContours (contoursOfLabel cc label) numSquaresW numSquaresH then
           Some (contoursOfLabel cc label)
         else findChart cc numSquaresW numSquaresH labels)"

definition kMaxAspectRatio :: real where
  "kMaxAspectRatio = 12 / 10"

definition kNumEdges :: nat where
  "kNumEdges = 4"

text \<open>
  The aspect ratio is a quotient of floating-point values stored in an \<^verbatim>\<open>int\<close>; with a
  zero divisor the quotient is infinite or NaN and the conversion undefined.
\<close>

definition aspectRatioOf :: "int \<Rightarrow> int \<Rightarrow> error + int" where
  "aspectRatioOf width height =
     (if min width height = 0 then Inl (Undefined FloatToIntOverflow)
      else toInt (real_of_int (max width height) / real_of_int (min width height)))"

fun filterPatches :: "cvlib \<Rightarrow> real \<Rightarrow> Contour list \<Rightarrow> error + ColorPatch list" where
  "filterPatches cv imSize [] = Inr []"
| "filterPatches cv imSize (cont # contours) =
     (case minAreaRect cv cont of (center, boxWidth, boxHeight) \<Rightarrow>
        ebind (toInt boxWidth) (\<lambda>width.
        ebind (toInt boxHeight) (\<lambda>height.
        ebind (toInt (momentsM00 cv cont)) (\<lambda>area.
        ebind (aspectRatioOf width height) (\<lambda>aspectRatio.
          if real_of_int area < 1 / 100 / 100 * imSize \<or>
             real_of_int area > 45 / 100 / 100 * imSize \<or>
             length cont \<noteq> kNumEdges \<or>
             real_of_int aspectRatio > kMaxAspectRatio \<or>
             \<not> isContourConvex cv cont
          then filterPatches cv imSize contours
          else ebind (filterPatches cv imSize contours) (\<lambda>colorPatchList.
                 Inr (\<lparr>centroid = center, mask = boundingRectMask cv cont,
                       rgbMedian = Vec3f 0 0 0\<rparr> # colorPatchList)))))))"

text \<open>The result is \<open>None\<close> where the call does not return.\<close>

definition detectColorChart ::
  "cvlib \<Rightarrow> Components \<Rightarrow> int \<Rightarrow> int \<Rightarrow> (error + ColorPatch list) option" where
  "detectColorChart cv cc numSquaresW numSquaresH =
     (case findChart cc numSquaresW numSquaresH [1..<length (stats cc)] of
        None \<Rightarrow> Some (Inl (VrCamException ''No chart found''))
      | Some contours \<Rightarrow>
          (case filterPatches cv (real_of_int (int32 (bwCols cc * bwRows cc))) contours of
             Inl e \<Rightarrow> Some (Inl e)
           | Inr colorPatchList \<Rightarrow>
               if length colorPatchList = 0 then Some (Inr colorPatchList)
               else
                 (case removeContourOutliers colorPatchList of
                    Inl e \<Rightarrow> Some (Inl e)
                  | Inr colorPatchListClean \<Rightarrow>
                      map_option Inr (sortPatches colorPatchListClean numSquaresW (bwCols cc)))))"

subsection \<open>Errors against the chart\<close>

text \<open>
  \<^verbatim>\<open>imBefore *= kScale\<close> rescales the pixels of the caller's image in place, so the images
  live in a store of pixel buffers and the two parameters are addresses into it.
\<close>

type_synonym store = "nat \<Rightarrow> Mat"

type_synonym Vec4f = "real list"

definition kScale :: real where
  "kScale = 255"

definition saturate :: "nat \<Rightarrow> real \<Rightarrow> nat" where
  "saturate hi x = nat (min (int hi) (max 0 (cvRound x)))"

fun scaleMat :: "real \<Rightarrow> Mat \<Rightarrow> Mat" where
  "scaleMat s (Mat8U d) = Mat8U (map (map (\<lambda>v. saturate 255 (real v * s))) d)"
| "scaleMat s (Mat16U d) = Mat16U (map (map (\<lambda>v. saturate 65535 (real v * s))) d)"
| "scaleMat s (Mat32F d) = Mat32F (map (map (\<lambda>v. v * s)) d)"
| "scaleMat s (Mat32FC3 d) = Mat32FC3 (map (map (\<lambda>v. Vec3f (vidx v 0 * s) (vidx v 1 * s) (vidx v 2 * s))) d)"

definition kErrorTypes :: nat where
  "kErrorTypes = 4"

definition addError :: "Vec4f \<Rightarrow> nat \<Rightarrow> real \<Rightarrow> Vec4f" where
  "addError err iErr x = err[iErr := err ! iErr + x]"

fun errorsLoop ::
  "int list list \<Rightarrow> Mat \<Rightarrow> Mat \<Rightarrow> ColorPatch list \<Rightarrow> nat list \<Rightarrow> Vec4f \<times> Vec4f \<Rightarrow>
     error + (Vec4f \<times> Vec4f)" where
  "errorsLoop tbl imBefore imAfter colorPatches [] errs = Inr errs"
| "errorsLoop tbl imBefore imAfter colorPatches (i # is) errs =
     ebind (at_Vec3f imBefore (toPoint (centroid (colorPatches ! i)))) (\<lambda>medianBefore.
     ebind (at_Vec3f imAfter (toPoint (centroid (colorPatches ! i)))) (\<lambda>medianAfter.
     ebind (vec_at tbl (int i)) (\<lambda>row.
     ebind (vec_at row 0) (\<lambda>m0.
     ebind (vec_at row 1) (\<lambda>m1.
     ebind (vec_at row 2) (\<lambda>m2.
       let numPatches = real (length colorPatches);
           macbethPatchVal = Vec3f (real_of_int m0) (real_of_int m1) (real_of_int m2);
           diffBefore = vsub (rgbMedian (colorPatches ! i)) macbethPatchVal;
           diffAfter = vsub medianAfter macbethPatchVal;
           errBefore = addError (fst errs) 0 (norm3 diffBefore / numPatches);
           errAfter = addError (snd errs) 0 (norm3 diffAfter / numPatches)
       in errorsLoop tbl imBefore imAfter colorPatches is
            (fold (\<lambda>iErr e.
                     (addError (fst e) iErr (\<bar>vidx diffBefore (iErr - 1)\<bar> / numPatches),
                      addError (snd e) iErr (\<bar>vidx diffAfter (iErr - 1)\<bar> / numPatches)))
               [1..<kErrorTypes] (errBefore, errAfter))))))))"

definition computeColorPatchErrors ::
  "int list list \<Rightarrow> store \<Rightarrow> nat \<Rightarrow> nat \<Rightarrow> ColorPatch list \<Rightarrow>
     store \<times> (error + (Vec4f \<times> Vec4f))" where
  "computeColorPatchErrors tbl st imBefore imAfter colorPatches =
     (let st1 = st(imBefore := scaleMat kScale (st imBefore));
          st2 = st1(imAfter := scaleMat kScale (st1 imAfter))
      in (st2,
          errorsLoop tbl (st2 imBefore) (st2 imAfter) colorPatches [0..<length colorPatches]
            (replicate 4 0, replicate 4 0)))"

subsection \<open>Notions of the specification\<close>

text \<open>
  Modelled from the spec: the header that holds \<^verbatim>\<open>rgbLinearMacbeth\<close> is missing; the
  reference chart is a table of 24 rows of 3 integers in the range from 0 to 255.
\<close>

definition wellFormedChart :: "int list list \<Rightarrow> bool" where
  "wellFormedChart tbl =
     (length tbl = 24 \<and> list_all (\<lambda>row. length row = 3 \<and> list_all (\<lambda>v. 0 \<le> v \<and> v \<le> 255) row) tbl)"

text \<open>The first component of the last \<open>k\<close> rows of a table, last row first.\<close>

definition lastRowsFirst :: "nat \<Rightarrow> int list list \<Rightarrow> int list" where
  "lastRowsFirst k tbl = map hd (take k (rev tbl))"

text \<open>The line through two points, as the specification writes it for one channel.\<close>

definition twoPointFit :: "real \<Rightarrow> real \<Rightarrow> real \<Rightarrow> real \<Rightarrow> real \<times> real \<times> real \<times> real" where
  "twoPointFit xDark yDark xBright yBright =
     (let slope = (yBright - yDark) / (xBright - xDark);
          interceptY = - slope * xDark + yDark
      in (slope, interceptY, - interceptY / slope, (1 - interceptY) / slope))"

definition responseAt :: "ColorResponse \<Rightarrow> nat \<Rightarrow> real \<times> real \<times> real \<times> real" where
  "responseAt r ch =
     (vidx (rgbSlope r) ch, vidx (rgbInterceptY r) ch,
      vidx (rgbInterceptXMin r) ch, vidx (rgbInterceptXMax r) ch)"

text \<open>A value clipped to the interval from 0 to 1.\<close>

definition clipUnit :: "real \<Rightarrow> real" where
  "clipUnit x = max 0 (min 1 x)"

text \<open>
  The least distance from the centroid of patch \<open>i\<close> to the centroid of another patch
  (\<^verbatim>\<open>FLT_MAX\<close> where there is no other), and the entry in the middle of a sorted list.
\<close>

definition nearestDistance :: "ColorPatch list \<Rightarrow> nat \<Rightarrow> real" where
  "nearestDistance cps i =
     Min (set (FLT_MAX #
       map (\<lambda>j. norm2 (psub (centroid (cps ! i)) (centroid (cps ! j))))
         (filter (\<lambda>j. j \<noteq> i) [0..<length cps])))"

definition upperMedian :: "real list \<Rightarrow> real" where
  "upperMedian ds = sort ds ! (length ds div 2)"

definition medianNearestDistance :: "ColorPatch list \<Rightarrow> real" where
  "medianNearestDistance cps = upperMedian (map (nearestDistance cps) [0..<length cps])"

text \<open>The patches the code keeps, and the patches the claim keeps.\<close>

definition keptStrictlyBelow :: "ColorPatch list \<Rightarrow> ColorPatch list" where
  "keptStrictlyBelow cps =
     map ((!) cps)
       (filter (\<lambda>i. nearestDistance cps i < 2 * medianNearestDistance cps) [0..<length cps])"

definition keptNotExceeding :: "ColorPatch list \<Rightarrow> ColorPatch list" where
  "keptNotExceeding cps =
     map ((!) cps)
       (filter (\<lambda>i. nearestDistance cps i \<le> 2 * medianNearestDistance cps) [0..<length cps])"

text \<open>A vector of three \<^verbatim>\<open>float\<close> values: no component beyond \<^verbatim>\<open>FLT_MAX\<close>.\<close>

fun floatVec3 :: "Vec3f \<Rightarrow> bool" where
  "floatVec3 (Vec3f a b c) = (\<bar>a\<bar> \<le> FLT_MAX \<and> \<bar>b\<bar> \<le> FLT_MAX \<and> \<bar>c\<bar> \<le> FLT_MAX)"

text \<open>
  One turn of the loop that selects the black level, where the median of contour \<open>i\<close> is
  \<open>meds ! i\<close>.
\<close>

definition selectionStep :: "Vec3f list \<Rightarrow> Vec3f list \<times> real \<times> int \<Rightarrow> nat \<Rightarrow> Vec3f list \<times> real \<times> int" where
  "selectionStep meds st i =
     ((fst st)[i := meds ! i],
      if norm3 (meds ! i) < fst (snd st) then (norm3 (meds ! i), int i) else snd st)"

text \<open>
  The values of one channel under a mask: the pixels of the raw image at the positions of
  the mask that the mosaic assigns to the channel (red first, green where not red, blue
  otherwise). The median vector of a mask has, for each channel, the entry in the middle of
  these values sorted. A mask can be measured where its positions lie in the image and
  each channel has a value under it.
\<close>

definition inImage :: "'a list list \<Rightarrow> Point \<Rightarrow> bool" where
  "inImage d p =
     (0 \<le> snd p \<and> snd p < int (length d) \<and> 0 \<le> fst p \<and> fst p < int (length (d ! nat (snd p))))"

definition pixelAt :: "'a list list \<Rightarrow> Point \<Rightarrow> 'a" where
  "pixelAt d p = d ! nat (snd p) ! nat (fst p)"

definition isChannel :: "CameraIsp \<Rightarrow> nat \<Rightarrow> Point \<Rightarrow> bool" where
  "isChannel isp ch p =
     ((ch = 0 \<and> redPixel isp (snd p) (fst p)) \<or>
      (ch = 1 \<and> \<not> redPixel isp (snd p) (fst p) \<and> greenPixel isp (snd p) (fst p)) \<or>
      (ch = 2 \<and> \<not> redPixel isp (snd p) (fst p) \<and> \<not> greenPixel isp (snd p) (fst p)))"

definition channelValues :: "CameraIsp \<Rightarrow> real list list \<Rightarrow> Point list \<Rightarrow> nat \<Rightarrow> real list" where
  "channelValues isp d locs ch = map (pixelAt d) (filter (isChannel isp ch) locs)"

definition maskMedian :: "CameraIsp \<Rightarrow> real list list \<Rightarrow> Point list \<Rightarrow> Vec3f" where
  "maskMedian isp d locs =
     Vec3f (upperMedian (channelValues isp d locs 0)) (upperMedian (channelValues isp d locs 1))
       (upperMedian (channelValues isp d locs 2))"

definition measurable :: "CameraIsp \<Rightarrow> real list list \<Rightarrow> Point list \<Rightarrow> bool" where
  "measurable isp d locs =
     (list_all (inImage d) locs \<and> list_all (\<lambda>ch. channelValues isp d locs ch \<noteq> []) [0, 1, 2])"

text \<open>
  A contour passes the filter of the black level where its area, cut to an integer, is at
  least 50, it has at least 10 vertices, and that area is at least half the area of its
  enclosing circle. Its area is representable where it fits an \<^verbatim>\<open>int\<close>.
\<close>

definition passesBlackHoleFilter :: "cvlib \<Rightarrow> Contour \<Rightarrow> bool" where
  "passesBlackHoleFilter cv cont =
     (50 \<le> \<lfloor>contourArea cv cont\<rfloor> \<and> 10 \<le> length cont \<and>
      (pi * minEnclosingCircleRadius cv cont * minEnclosingCircleRadius cv cont = 0 \<or>
       1 / 2 \<le> real_of_int \<lfloor>contourArea cv cont\<rfloor> /
         (pi * minEnclosingCircleRadius cv cont * minEnclosingCircleRadius cv cont)))"

definition representableArea :: "cvlib \<Rightarrow> Contour \<Rightarrow> bool" where
  "representableArea cv cont = (0 \<le> contourArea cv cont \<and> contourArea cv cont < 2 ^ 31)"

text \<open>The patch that \<^verbatim>\<open>sortPatches\<close> finds for a centroid.\<close>

definition patchOfCentroid :: "ColorPatch list \<Rightarrow> Point2f \<Rightarrow> ColorPatch" where
  "patchOfCentroid cps c = the (find (\<lambda>cp. centroid cp = c) cps)"

text \<open>A label that passes every test of the loop over the connected components.\<close>

definition labelQualifies :: "Components \<Rightarrow> int \<Rightarrow> int \<Rightarrow> nat \<Rightarrow> bool" where
  "labelQualifies cc numSquaresW numSquaresH label =
     (findChart cc numSquaresW numSquaresH [label] \<noteq> None)"

subsection \<open>Sample inputs\<close>

text \<open>A chart table of 24 rows, used where a concrete table is needed.\<close>

definition chart24 :: "int list list" where
  "chart24 =
     [[115, 82, 68], [194, 150, 130], [98, 122, 157], [87, 108, 67],
      [133, 128, 177], [103, 189, 170], [214, 126, 44], [80, 91, 166],
      [193, 90, 99], [94, 60, 108], [157, 188, 64], [224, 163, 46],
      [56, 61, 150], [70, 148, 73], [175, 54, 60], [231, 199, 31],
      [187, 86, 149], [8, 133, 161], [243, 243, 242], [204, 204, 204],
      [160, 160, 160], [122, 122, 121], [51, 51, 51], [20, 20, 20]]"

text \<open>
  An ISP with a Bayer mosaic, a file system with one configuration file, an image of one
  row of five gray pixels, and five patches of one pixel each.
\<close>

definition bayerIsp :: CameraIsp where
  "bayerIsp =
     \<lparr>redPixel = (\<lambda>i j. even i \<and> even j), greenPixel = (\<lambda>i j. even i \<noteq> even j),
      loadedRawImage = (\<lambda>img. img), clampedAndStretched = (\<lambda>lo hi rawRef raw. raw)\<rparr>"

definition world0 :: world where
  "world0 =
     \<lparr>files = (\<lambda>f. if f = ''isp.json'' then Some ''{}'' else None),
      newCameraIsp = (\<lambda>json bits. bayerIsp)\<rparr>"

definition pixelMask :: "nat \<Rightarrow> Mat" where
  "pixelMask k = Mat8U [map (\<lambda>x. if x = k then 255 else 0) [0, 1, 2, 3, 4]]"

definition patchAt :: "nat \<Rightarrow> ColorPatch" where
  "patchAt k = \<lparr>centroid = (real k, 0), mask = pixelMask k, rgbMedian = Vec3f 0 0 0\<rparr>"

definition measuredPatch :: "nat \<Rightarrow> real \<Rightarrow> ColorPatch" where
  "measuredPatch k v = \<lparr>centroid = (real k, 0), mask = pixelMask k, rgbMedian = Vec3f v v v\<rparr>"

definition grayRow :: Mat where
  "grayRow = Mat32FC3 [map (\<lambda>v. Vec3f v v v) [3 / 4, 3 / 5, 2 / 5, 1 / 4, 1 / 10]]"

definition grayPatches :: "ColorPatch list" where
  "grayPatches = map patchAt [0, 1, 2, 3, 4]"

definition measuredGrayPatches :: "ColorPatch list" where
  "measuredGrayPatches =
     [measuredPatch 0 (3 / 4), measuredPatch 1 (3 / 5), measuredPatch 2 (2 / 5),
      measuredPatch 3 (1 / 4), measuredPatch 4 (1 / 10)]"

text \<open>A response of slope 2 through the origin.\<close>

definition steepResponse :: ColorResponse where
  "steepResponse =
     \<lparr>rgbSlope = Vec3f 2 2 2, rgbInterceptY = Vec3f 0 0 0,
      rgbInterceptXMin = Vec3f 0 0 0, rgbInterceptXMax = Vec3f (1 / 2) (1 / 2) (1 / 2)\<rparr>"

text \<open>
  Two images of one pixel that holds the first colour of the chart, at every address of
  the store, and a patch on that pixel whose median has been measured on it.
\<close>

definition truePixel :: Vec3f where
  "truePixel = Vec3f (115 / 255) (82 / 255) (68 / 255)"

definition store0 :: store where
  "store0 = (\<lambda>a. Mat32FC3 [[truePixel]])"

definition truePatch :: ColorPatch where
  "truePatch = \<lparr>centroid = (0, 0), mask = Mat8U [[255]], rgbMedian = truePixel\<rparr>"

text \<open>A raw tile of two by two pixels and a mask on its red pixel only.\<close>

definition redOnlyMask :: Mat where
  "redOnlyMask = Mat8U [[255, 0], [0, 0]]"

definition rawTile :: Mat where
  "rawTile = Mat32F [[1 / 10, 2 / 10], [3 / 10, 4 / 10]]"

text \<open>Three patches on a line, at abscissas 0, 1 and 3.\<close>

definition pointPatch :: "real \<Rightarrow> real \<Rightarrow> ColorPatch" where
  "pointPatch x y = \<lparr>centroid = (x, y), mask = Mat8U [[255]], rgbMedian = Vec3f 0 0 0\<rparr>"

definition threeInLine :: "ColorPatch list" where
  "threeInLine = [pointPatch 0 0, pointPatch 1 0, pointPatch 3 0]"

text \<open>
  A raw frame of two rows and four columns with its normalized image, two contours of
  twelve vertices around its left and right halves and a speck of three vertices, and the
  geometry the image library reports for them.
\<close>

definition darkFrame :: Mat where
  "darkFrame = Mat32F [[2 / 10, 3 / 10, 2 / 100, 3 / 100], [3 / 10, 1 / 10, 3 / 100, 1 / 100]]"

definition rawFrame :: Mat where
  "rawFrame = Mat16U [[13107, 19661, 1311, 1966], [19661, 6554, 1966, 655]]"

definition world1 :: world where
  "world1 =
     \<lparr>files = (\<lambda>f. if f = ''isp.json'' then Some ''{}'' else None),
      newCameraIsp = (\<lambda>json bits. bayerIsp\<lparr>loadedRawImage := (\<lambda>img. darkFrame)\<rparr>)\<rparr>"

definition ring :: "int \<Rightarrow> Contour" where
  "ring x0 = map (\<lambda>j. (x0 + j, j)) [0, 1, 2, 3, 4, 5, 6, 7, 8, 9, 10, 11]"

definition speck :: Contour where
  "speck = [(0, 0), (1, 0), (1, 1)]"

definition cv0 :: cvlib where
  "cv0 =
     \<lparr>contourArea = (\<lambda>c. if length c < 10 then 3 else 100),
      minEnclosingCircleRadius = (\<lambda>c. if length c < 10 then 1 else 6),
      drawContoursFilled =
        (\<lambda>cs i. if i = 0 then Mat8U [[255, 255, 0, 0], [255, 255, 0, 0]]
                else Mat8U [[0, 0, 255, 255], [0, 0, 255, 255]]),
      minAreaRect = (\<lambda>c. ((0, 0), 10, 10)),
      momentsM00 = (\<lambda>c. 100),
      isContourConvex = (\<lambda>c. True),
      boundingRectMask = (\<lambda>c. Mat8U [[255]])\<rparr>"

text \<open>
  Connected components of an image of 1000 by 1000 pixels: the background and one centred
  component whose mask has 24 contours of twelve vertices; and the same image with a
  component of 50 pixels in its place.
\<close>

definition chartScene :: Components where
  "chartScene =
     \<lparr>bwCols = 1000, bwRows = 1000,
      stats =
        [\<lparr>CC_STAT_AREA = 800000, CC_STAT_TOP = 0, CC_STAT_LEFT = 0,
          CC_STAT_WIDTH = 1000, CC_STAT_HEIGHT = 1000\<rparr>,
         \<lparr>CC_STAT_AREA = 50000, CC_STAT_TOP = 300, CC_STAT_LEFT = 300,
          CC_STAT_WIDTH = 400, CC_STAT_HEIGHT = 400\<rparr>],
      contoursOfLabel = (\<lambda>label. replicate 24 (ring 0))\<rparr>"

definition noiseScene :: Components where
  "noiseScene =
     \<lparr>bwCols = 1000, bwRows = 1000,
      stats =
        [\<lparr>CC_STAT_AREA = 800000, CC_STAT_TOP = 0, CC_STAT_LEFT = 0,
          CC_STAT_WIDTH = 1000, CC_STAT_HEIGHT = 1000\<rparr>,
         \<lparr>CC_STAT_AREA = 50, CC_STAT_TOP = 495, CC_STAT_LEFT = 495,
          CC_STAT_WIDTH = 10, CC_STAT_HEIGHT = 10\<rparr>],
      contoursOfLabel = (\<lambda>label. replicate 24 (ring 0))\<rparr>"

text \<open>
  A raw frame of two rows and six columns with its normalized image, and five contours:
  two round ones around the left and right halves, a speck, a square of four vertices and
  a sliver in a wide circle.
\<close>

definition shadedData :: "real list list" where
  "shadedData =
     [[1 / 4, 7 / 20, 1 / 5, 7 / 200, 1 / 50, 3 / 100],
      [3 / 10, 1 / 10, 8 / 25, 3 / 250, 4 / 125, 1 / 100]]"

definition rawFrame6 :: Mat where
  "rawFrame6 =
     Mat16U [[16384, 22937, 13107, 2294, 1311, 1966], [19661, 6554, 20971, 786, 2097, 655]]"

definition world2 :: world where
  "world2 =
     \<lparr>files = (\<lambda>f. if f = ''isp.json'' then Some ''{}'' else None),
      newCameraIsp = (\<lambda>json bits. bayerIsp\<lparr>loadedRawImage := (\<lambda>img. Mat32F shadedData)\<rparr>)\<rparr>"

definition square4 :: Contour where
  "square4 = [(0, 0), (10, 0), (10, 10), (0, 10)]"

definition sliver :: Contour where
  "sliver = ring 40"

definition leftLocs :: "Point list" where
  "leftLocs = [(0, 0), (1, 0), (2, 0), (0, 1), (1, 1), (2, 1)]"

definition rightLocs :: "Point list" where
  "rightLocs = [(3, 0), (4, 0), (5, 0), (3, 1), (4, 1), (5, 1)]"

definition cvBlack :: cvlib where
  "cvBlack =
     cv0\<lparr>contourArea := (\<lambda>c. if c = speck then 3 else 100),
         minEnclosingCircleRadius := (\<lambda>c. if c = sliver then 20 else 6),
         drawContoursFilled :=
           (\<lambda>cs i. if i = 0 then Mat8U [[255, 255, 255, 0, 0, 0], [255, 255, 255, 0, 0, 0]]
                   else Mat8U [[0, 0, 0, 255, 255, 255], [0, 0, 0, 255, 255, 255]])\<rparr>"

definition blackContours :: "Contour list" where
  "blackContours = [ring 0, speck, square4, sliver, ring 3]"

text \<open>
  Three squares of four vertices on a line, with centres at abscissas 420, 400 and 460,
  among the contours of the centred component.
\<close>

definition quad :: "int \<Rightarrow> Contour" where
  "quad x = [(x - 5, 495), (x + 5, 495), (x + 5, 505), (x - 5, 505)]"

definition cvChart :: cvlib where
  "cvChart = cv0\<lparr>minAreaRect := (\<lambda>c. ((real_of_int (fst (hd c)) + 5, 500), 10, 10))\<rparr>"

definition quadScene :: Components where
  "quadScene =
     chartScene\<lparr>contoursOfLabel :=
       (\<lambda>label. quad 420 # quad 400 # quad 460 # replicate 21 (ring 0))\<rparr>"

section \<open>Properties\<close>

subsection \<open>Containers\<close>

lemma ebind_Inr [simp]: "ebind (Inr x) f = f x"
  by (simp add: ebind_def)

lemma ebind_Inl [simp]: "ebind (Inl e) f = Inl e"
  by (simp add: ebind_def)

lemma vec_at_in_range: "i < length v \<Longrightarrow> vec_at v (int i) = Inr (v ! i)"
  by (simp add: vec_at_def)

lemma vec_at_Nil [simp]: "vec_at [] i = Inl (Undefined IndexOutOfRange)"
  by (simp add: vec_at_def)

subsection \<open>The gray ramp\<close>

lemma getMacBethGrays_loop_eq:
  assumes "iStart = int (length tbl) - 1" "\<forall>row\<in>set tbl. row \<noteq> []"
    "0 \<le> iStart - kNumGrayPatches" "iStart - kNumGrayPatches - 1 \<le> i" "i \<le> iStart"
  shows "getMacBethGrays_loop tbl iStart i acc =
    Inr (acc @ map hd (rev (drop (nat (iStart - kNumGrayPatches)) (take (nat (i + 1)) tbl))))"
  using assms
proof (induction tbl iStart i acc rule: getMacBethGrays_loop.induct)
  case (1 tbl iStart i acc)
  show ?case
  proof (cases "i \<ge> iStart - kNumGrayPatches")
    case False
    then have "i + 1 = iStart - kNumGrayPatches" using "1.prems" by simp
    then show ?thesis using False
      by (subst getMacBethGrays_loop.simps) simp
  next
    case True
    have i0: "0 \<le> i" "i < int (length tbl)" using True "1.prems" by auto
    then have row: "vec_at tbl i = Inr (tbl ! nat i)" by (simp add: vec_at_def)
    have "tbl ! nat i \<in> set tbl" using i0 by simp
    then have ne: "tbl ! nat i \<noteq> []" using "1.prems"(2) by blast
    then have g: "vec_at (tbl ! nat i) 0 = Inr (hd (tbl ! nat i))"
      by (simp add: vec_at_def hd_conv_nth)
    have IH: "getMacBethGrays_loop tbl iStart (i - 1) (acc @ [hd (tbl ! nat i)]) =
      Inr ((acc @ [hd (tbl ! nat i)]) @ map hd
        (rev (drop (nat (iStart - kNumGrayPatches)) (take (nat (i - 1 + 1)) tbl))))"
      using "1.IH"[OF True, of "hd (tbl ! nat i)"] "1.prems" True by simp
    have tk: "take (nat (i + 1)) tbl = take (nat i) tbl @ [tbl ! nat i]"
      using i0 by (simp add: nat_add_distrib take_Suc_conv_app_nth)
    have "getMacBethGrays_loop tbl iStart i acc =
       getMacBethGrays_loop tbl iStart (i - 1) (acc @ [hd (tbl ! nat i)])"
      by (subst getMacBethGrays_loop.simps) (simp add: True row g)
    moreover have "nat (iStart - kNumGrayPatches) \<le> nat i"
      using True "1.prems"(3) by simp
    ultimately show ?thesis
      using i0 by (simp add: IH tk)
  qed
qed

lemma getMacBethGrays_six:
  assumes "6 \<le> length tbl" "\<forall>row\<in>set tbl. row \<noteq> []"
  shows "getMacBethGrays tbl = Inr (lastRowsFirst 6 tbl)"
proof -
  have "getMacBethGrays tbl = Inr ([] @ map hd
     (rev (drop (nat (int (length tbl) - 1 - kNumGrayPatches))
        (take (nat (int (length tbl) - 1 + 1)) tbl))))"
    unfolding getMacBethGrays_def Let_def
    by (rule getMacBethGrays_loop_eq) (use assms in \<open>auto simp: kNumGrayPatches_def\<close>)
  moreover have "nat (int (length tbl) - 1 - kNumGrayPatches) = length tbl - 6"
    using assms by (simp add: kNumGrayPatches_def)
  ultimately show ?thesis by (simp add: take_rev lastRowsFirst_def)
qed

lemma wellFormedChart_rows:
  "wellFormedChart tbl \<Longrightarrow> length tbl = 24 \<and> (\<forall>row\<in>set tbl. row \<noteq> [])"
  by (auto simp: wellFormedChart_def list_all_iff)

lemma wellFormedChart_chart24: "wellFormedChart chart24"
  by (simp add: wellFormedChart_def chart24_def)

lemma lastRowsFirst_chart24:
  "lastRowsFirst 6 chart24 = [20, 51, 122, 160, 204, 243]"
  "lastRowsFirst 5 chart24 = [20, 51, 122, 160, 204]"
  by (simp_all add: lastRowsFirst_def chart24_def)

text \<open>
  C1, as the code has it: on a chart of 24 rows \<^verbatim>\<open>getMacBethGrays\<close> returns six values, the
  first component of each of the last six rows of the table, last row first.
\<close>

theorem getMacBethGrays_last_six_rows:
  assumes "wellFormedChart tbl"
  shows "getMacBethGrays tbl = Inr (lastRowsFirst 6 tbl) \<and> length (lastRowsFirst 6 tbl) = 6"
proof -
  have rows: "length tbl = 24" "\<forall>row\<in>set tbl. row \<noteq> []"
    using wellFormedChart_rows[OF assms] by simp_all
  then have "getMacBethGrays tbl = Inr (lastRowsFirst 6 tbl)"
    by (intro getMacBethGrays_six) simp_all
  moreover have "length (lastRowsFirst 6 tbl) = 6"
    using rows by (simp add: lastRowsFirst_def)
  ultimately show ?thesis by simp
qed

theorem getMacBethGrays_last_six_rows_witness:
  "wellFormedChart chart24 \<and> getMacBethGrays chart24 = Inr [20, 51, 122, 160, 204, 243]"
  using getMacBethGrays_last_six_rows[OF wellFormedChart_chart24]
  by (simp add: wellFormedChart_chart24 lastRowsFirst_chart24)

text \<open>
  C1, as the claim states it, fails on the sample chart: the list returned is not the list
  of the first components of the last five rows.
\<close>

theorem getMacBethGrays_not_five_counterexample:
  "getMacBethGrays chart24 \<noteq> Inr (lastRowsFirst 5 chart24)"
proof -
  have "getMacBethGrays chart24 = Inr (lastRowsFirst 6 chart24)"
    using wellFormedChart_rows[OF wellFormedChart_chart24] by (intro getMacBethGrays_six) simp_all
  then show ?thesis by (simp add: lastRowsFirst_chart24)
qed

subsection \<open>The response of the sensor\<close>

lemma channels3: "[0..<kNumChannels] = [0, 1, 2]"
  by (simp add: kNumChannels_def numeral_3_eq_3 upt_conv_Cons)

lemma computeRGBMedians_length:
  "computeRGBMedians w colorPatches img isRaw cfg = Inr cps \<Longrightarrow> length cps = length colorPatches"
proof (induction colorPatches arbitrary: cps)
  case Nil
  then show ?case by simp
next
  case (Cons cp colorPatches)
  then show ?case
    by (auto simp: ebind_def split: sum.splits)
qed

lemma fold_responseChannel:
  assumes "ch < 3"
  shows "responseAt (fold (responseChannel xD xB yD yB) [0..<kNumChannels] zeroResponse) ch =
     twoPointFit xD (vidx yD ch) xB (vidx yB ch)"
proof -
  obtain d0 d1 d2 b0 b1 b2 where v: "yD = Vec3f d0 d1 d2" "yB = Vec3f b0 b1 b2"
    by (cases yD, cases yB) blast
  have "ch = 0 \<or> ch = 1 \<or> ch = 2" using assms by arith
  then show ?thesis
    by (auto simp: v channels3 responseChannel_def zeroResponse_def Let_def responseAt_def
        twoPointFit_def)
qed

lemma computeRGBResponse_eq:
  assumes "wellFormedChart tbl"
    and "computeRGBMedians w colorPatches raw isRaw cfg = Inr cps"
    and "5 \<le> length cps"
  shows "computeRGBResponse w tbl raw isRaw colorPatches cfg =
     Inr (cps, fold (responseChannel (real_of_int (lastRowsFirst 6 tbl ! 1) / 255)
                       (real_of_int (lastRowsFirst 6 tbl ! 4) / 255)
                       (rgbMedian (cps ! (length cps - 2))) (rgbMedian (cps ! (length cps - 5))))
                  [0..<kNumChannels] zeroResponse)"
proof -
  have g: "getMacBethGrays tbl = Inr (lastRowsFirst 6 tbl)"
    using wellFormedChart_rows[OF assms(1)] by (intro getMacBethGrays_six) simp_all
  have l: "length (lastRowsFirst 6 tbl) = 6"
    using wellFormedChart_rows[OF assms(1)] by (simp add: lastRowsFirst_def)
  have d: "vec_at (lastRowsFirst 6 tbl) kDarkIdx = Inr (lastRowsFirst 6 tbl ! 1)"
    and b: "vec_at (lastRowsFirst 6 tbl) kBrightIdx = Inr (lastRowsFirst 6 tbl ! 4)"
    using l by (simp_all add: vec_at_def kDarkIdx_def kBrightIdx_def)
  have pd: "vec_at cps (int (length cps) - 1 - kDarkIdx) = Inr (cps ! (length cps - 2))"
    using assms(3) by (simp add: vec_at_def kDarkIdx_def nat_diff_distrib)
  have pb: "vec_at cps (int (length cps) - 1 - kBrightIdx) = Inr (cps ! (length cps - 5))"
    using assms(3) by (simp add: vec_at_def kBrightIdx_def nat_diff_distrib)
  show ?thesis
    by (simp add: computeRGBResponse_def assms(2) g d b pd pb Let_def)
qed

lemma twoPointFit_example:
  "twoPointFit (2 / 10) (25 / 100) (8 / 10) (75 / 100) = (5 / 6, 1 / 12, - (1 / 10), 11 / 10)"
  by (simp add: twoPointFit_def Let_def)

lemma computeRGBMedians_grayRow:
  "computeRGBMedians world0 grayPatches grayRow False ''isp.json'' = Inr measuredGrayPatches"
  by code_simp

text \<open>
  C3: where the medians of at least five patches can be measured, \<^verbatim>\<open>computeRGBResponse\<close>
  returns, for every channel, the slope, the intercept and the two bounds of the line
  through the two gray points: \<open>x\<close> from entries 1 and 4 of the gray ramp over 255, \<open>y\<close>
  from the medians of the second and the fifth patch from the end. For the points
  (0.2, 0.25) and (0.8, 0.75) the line has slope 5/6, intercept 1/12 and bounds -0.1 and
  1.1. The arithmetic is that of the real numbers.
\<close>

theorem computeRGBResponse_two_point_fit:
  assumes "wellFormedChart tbl"
    and "computeRGBMedians w colorPatches raw isRaw ispConfigFile = Inr cps"
    and "5 \<le> length colorPatches"
    and "ch < 3"
  shows "\<exists>r. computeRGBResponse w tbl raw isRaw colorPatches ispConfigFile = Inr (cps, r) \<and>
     responseAt r ch =
       twoPointFit (real_of_int (lastRowsFirst 6 tbl ! 1) / 255)
         (vidx (rgbMedian (cps ! (length cps - 2))) ch)
         (real_of_int (lastRowsFirst 6 tbl ! 4) / 255)
         (vidx (rgbMedian (cps ! (length cps - 5))) ch) \<and>
     twoPointFit (2 / 10) (25 / 100) (8 / 10) (75 / 100) = (5 / 6, 1 / 12, - (1 / 10), 11 / 10)"
proof -
  have "5 \<le> length cps"
    using computeRGBMedians_length[OF assms(2)] assms(3) by simp
  from computeRGBResponse_eq[OF assms(1,2) this] fold_responseChannel[OF assms(4)]
    twoPointFit_example
  show ?thesis by simp
qed

theorem computeRGBResponse_two_point_fit_witness:
  "wellFormedChart chart24 \<and>
   computeRGBMedians world0 grayPatches grayRow False ''isp.json'' = Inr measuredGrayPatches \<and>
   5 \<le> length grayPatches \<and>
   (\<exists>r. computeRGBResponse world0 chart24 grayRow False grayPatches ''isp.json'' =
      Inr (measuredGrayPatches, r) \<and>
      responseAt r 0 = (5 / 6, 1 / 12, - (1 / 10), 11 / 10))"
proof -
  have len: "5 \<le> length grayPatches" by (simp add: grayPatches_def)
  from computeRGBResponse_two_point_fit[OF wellFormedChart_chart24 computeRGBMedians_grayRow len,
      of 0]
  obtain r where r: "computeRGBResponse world0 chart24 grayRow False grayPatches ''isp.json'' =
      Inr (measuredGrayPatches, r)"
    and f: "responseAt r 0 =
       twoPointFit (real_of_int (lastRowsFirst 6 chart24 ! 1) / 255)
         (vidx (rgbMedian (measuredGrayPatches ! (length measuredGrayPatches - 2))) 0)
         (real_of_int (lastRowsFirst 6 chart24 ! 4) / 255)
         (vidx (rgbMedian (measuredGrayPatches ! (length measuredGrayPatches - 5))) 0)"
    by auto
  have "responseAt r 0 = (5 / 6, 1 / 12, - (1 / 10), 11 / 10)"
    unfolding f
    by (simp add: lastRowsFirst_chart24 measuredGrayPatches_def measuredPatch_def
        twoPointFit_def Let_def)
  with r len wellFormedChart_chart24 computeRGBMedians_grayRow show ?thesis by blast
qed

subsection \<open>Clamp bounds\<close>

lemma fold_clampChannel:
  "fold clampChannel [0..<kNumChannels] (Vec3f a0 a1 a2, Vec3f c0 c1 c2) =
     (Vec3f (max 0 a0) (max 0 a1) (max 0 a2), Vec3f (min 1 c0) (min 1 c1) (min 1 c2))"
  by (simp add: channels3 clampChannel_def)

text \<open>
  C7, as the code has it: the bounds that \<^verbatim>\<open>clampAndStretch\<close> writes back are, for every
  channel, the images of component 0 of the two input vectors under the fitted line, the
  lower one raised to 0 where it is negative, the upper one lowered to 1 where it is above.
\<close>

theorem clampAndStretch_bounds:
  assumes "ch < 3"
  shows "vidx (fst (fst (clampAndStretch w ispConfigFile rawRef raw cr rgbClampMin rgbClampMax))) ch =
       max 0 (vidx (rgbSlope cr) ch * vidx rgbClampMin 0 + vidx (rgbInterceptY cr) ch) \<and>
     vidx (snd (fst (clampAndStretch w ispConfigFile rawRef raw cr rgbClampMin rgbClampMax))) ch =
       min 1 (vidx (rgbSlope cr) ch * vidx rgbClampMax 0 + vidx (rgbInterceptY cr) ch)"
proof -
  obtain m0 m1 m2 b0 b1 b2 where v: "rgbSlope cr = Vec3f m0 m1 m2" "rgbInterceptY cr = Vec3f b0 b1 b2"
    by (cases "rgbSlope cr", cases "rgbInterceptY cr") blast
  have "ch = 0 \<or> ch = 1 \<or> ch = 2" using assms by arith
  then show ?thesis
    by (auto simp: clampAndStretch_def Let_def v fold_clampChannel)
qed

theorem clampAndStretch_bounds_witness:
  "(1::nat) < 3 \<and>
   vidx (fst (fst (clampAndStretch world0 ''isp.json'' grayRow grayRow steepResponse
     (Vec3f (3 / 5) 0 0) (Vec3f (4 / 5) 0 0)))) 1 = 6 / 5 \<and>
   vidx (snd (fst (clampAndStretch world0 ''isp.json'' grayRow grayRow steepResponse
     (Vec3f (3 / 5) 0 0) (Vec3f (4 / 5) 0 0)))) 1 = 1"
  using clampAndStretch_bounds[of 1 world0 "''isp.json''" grayRow grayRow steepResponse
      "Vec3f (3 / 5) 0 0" "Vec3f (4 / 5) 0 0"]
  by (simp add: steepResponse_def)

text \<open>
  C7, as the claim states it, fails: with slope 2, intercept 0 and the lower threshold 3/5
  the lower bound written back is 6/5, not its clip to the unit interval.
\<close>

theorem clampAndStretch_not_clipped_counterexample:
  "vidx (fst (fst (clampAndStretch world0 ''isp.json'' grayRow grayRow steepResponse
     (Vec3f (3 / 5) 0 0) (Vec3f (4 / 5) 0 0)))) 1 \<noteq>
   clipUnit (vidx (rgbSlope steepResponse) 1 * vidx (Vec3f (3 / 5) 0 0) 0 +
     vidx (rgbInterceptY steepResponse) 1)"
  by (simp add: clampAndStretch_def Let_def steepResponse_def fold_clampChannel clipUnit_def)

subsection \<open>Patch statistics\<close>

lemma medianOfBucket_empty: "medianOfBucket [] = Inl (Undefined IndexOutOfRange)"
  by (simp add: medianOfBucket_def)

lemma medianOfBucket_cases:
  "medianOfBucket b = Inl (Undefined IndexOutOfRange) \<or> (\<exists>m. medianOfBucket b = Inr m)"
  by (simp add: medianOfBucket_def vec_at_def)

lemma medianChannels_empty_bucket:
  assumes "ch \<in> set chs" "RGBs ! ch = []"
  shows "medianChannels RGBs chs m = Inl (Undefined IndexOutOfRange)"
  using assms(1)
proof (induction chs arbitrary: m)
  case Nil
  then show ?case by simp
next
  case (Cons c chs)
  show ?case
  proof (cases "c = ch")
    case True
    then show ?thesis by (simp add: assms(2) medianOfBucket_empty)
  next
    case False
    then have "ch \<in> set chs" using Cons.prems by simp
    then have "\<And>m'. medianChannels RGBs chs m' = Inl (Undefined IndexOutOfRange)"
      by (rule Cons.IH)
    then show ?thesis
      using medianOfBucket_cases[of "RGBs ! c"] by auto
  qed
qed

text \<open>
  C5, as the code behaves: where the pixels under the mask leave the bucket of some channel
  empty, \<^verbatim>\<open>getRgbMedianMask\<close> reads entry 0 of the empty bucket, outside the vector. Nothing
  is thrown; the only exception of the function is the one for a configuration file that
  cannot be read.
\<close>

theorem getRgbMedianMask_empty_bucket:
  assumes "findNonZero msk = Inr locs"
    and "files w ispConfigFile = Some json"
    and "populateChannels (newCameraIsp w json (getBitsPerPixel img)) img isRaw locs
           (replicate kNumChannels []) = Inr RGBs"
    and "ch < 3"
    and "RGBs ! ch = []"
  shows "getRgbMedianMask w img msk ispConfigFile isRaw = Inl (Undefined IndexOutOfRange)"
proof -
  have "ch \<in> set [0..<kNumChannels]" using assms(4) by (simp add: kNumChannels_def)
  then have "medianChannels RGBs [0..<kNumChannels] (Vec3f (- 1) (- 1) (- 1)) =
      Inl (Undefined IndexOutOfRange)"
    using assms(5) by (rule medianChannels_empty_bucket)
  then show ?thesis
    by (simp add: getRgbMedianMask_def getJson_def assms(1,2,3))
qed

lemma redOnly_locs: "findNonZero redOnlyMask = Inr [(0, 0)]"
  by code_simp

lemma redOnly_buckets:
  "populateChannels (newCameraIsp world0 ''{}'' (getBitsPerPixel rawTile)) rawTile True [(0, 0)]
     (replicate kNumChannels []) = Inr [[1 / 10], [], []]"
  by code_simp

theorem getRgbMedianMask_empty_bucket_witness:
  "findNonZero redOnlyMask = Inr [(0, 0)] \<and>
   files world0 ''isp.json'' = Some ''{}'' \<and>
   populateChannels (newCameraIsp world0 ''{}'' (getBitsPerPixel rawTile)) rawTile True [(0, 0)]
     (replicate kNumChannels []) = Inr [[1 / 10], [], []] \<and>
   getRgbMedianMask world0 rawTile redOnlyMask ''isp.json'' True = Inl (Undefined IndexOutOfRange)"
proof -
  have f: "files world0 ''isp.json'' = Some ''{}''" by (simp add: world0_def)
  have "getRgbMedianMask world0 rawTile redOnlyMask ''isp.json'' True = Inl (Undefined IndexOutOfRange)"
    by (rule getRgbMedianMask_empty_bucket[OF redOnly_locs f redOnly_buckets, of 1]) simp_all
  with redOnly_locs f redOnly_buckets show ?thesis by simp
qed

subsection \<open>Errors against the chart\<close>

lemma cvRound_zero: "cvRound 0 = 0"
  by (simp add: cvRound_def)

text \<open>
  C4 at a failing input: the two images are equal, and equal to the chart at the patch, the
  error after is zero in every component and the error before is not. The error before is
  computed from the median stored in the patch, which is not on the scale of 8 bits; the
  pixel read from the first image is not used.
\<close>

theorem computeColorPatchErrors_identical_images:
  "store0 0 = store0 1 \<and>
   snd (computeColorPatchErrors chart24 store0 0 1 [truePatch]) =
     Inr ([norm3 (Vec3f (5842 / 51) (20828 / 255) (1016 / 15)), 5842 / 51, 20828 / 255, 1016 / 15],
          [0, 0, 0, 0])"
  by (simp add: computeColorPatchErrors_def Let_def store0_def truePixel_def kScale_def
      truePatch_def toPoint_def cvRound_zero mat_at_def vec_at_def chart24_def kErrorTypes_def
      addError_def upt_conv_Cons numeral_eq_Suc)

text \<open>
  C9, as the code behaves: after the call the first image holds its pixels times 255, and
  times 255 twice where both parameters name one buffer. On the sample pixel
  (115/255, 82/255, 68/255) it holds (115, 82, 68).
\<close>

theorem computeColorPatchErrors_rescales_images:
  "fst (computeColorPatchErrors tbl st imBefore imAfter colorPatches) imBefore =
     (if imBefore = imAfter then scaleMat kScale (scaleMat kScale (st imBefore))
      else scaleMat kScale (st imBefore)) \<and>
   store0 0 = Mat32FC3 [[Vec3f (115 / 255) (82 / 255) (68 / 255)]] \<and>
   fst (computeColorPatchErrors chart24 store0 0 1 [truePatch]) 0 = Mat32FC3 [[Vec3f 115 82 68]]"
proof (intro conjI)
  show "fst (computeColorPatchErrors tbl st imBefore imAfter colorPatches) imBefore =
     (if imBefore = imAfter then scaleMat kScale (scaleMat kScale (st imBefore))
      else scaleMat kScale (st imBefore))"
    by (simp add: computeColorPatchErrors_def Let_def)
  show "store0 0 = Mat32FC3 [[Vec3f (115 / 255) (82 / 255) (68 / 255)]]"
    by (simp add: store0_def truePixel_def)
  show "fst (computeColorPatchErrors chart24 store0 0 1 [truePatch]) 0 = Mat32FC3 [[Vec3f 115 82 68]]"
    by (simp add: computeColorPatchErrors_def Let_def store0_def truePixel_def kScale_def)
qed

subsection \<open>Outliers among the patches\<close>

lemma minDistanceLoop_eq:
  "minDistanceLoop cps i js d =
     Min (set (d # map (\<lambda>j. norm2 (psub (centroid (cps ! i)) (centroid (cps ! j))))
       (filter (\<lambda>j. j \<noteq> i) js)))"
proof (induction js arbitrary: d)
  case Nil
  then show ?case by simp
next
  case (Cons j js)
  show ?case
  proof (cases "i = j")
    case True
    then show ?thesis using Cons.IH[of d] by simp
  next
    case False
    let ?x = "norm2 (psub (centroid (cps ! i)) (centroid (cps ! j)))"
    let ?S = "set (map (\<lambda>j. norm2 (psub (centroid (cps ! i)) (centroid (cps ! j))))
       (filter (\<lambda>j. j \<noteq> i) js))"
    have fin: "finite ?S" by simp
    have "minDistanceLoop cps i (j # js) d = Min (insert (if ?x < d then ?x else d) ?S)"
      using False Cons.IH[of "if ?x < d then ?x else d"] by (simp add: Let_def)
    also have "(if ?x < d then ?x else d) = min d ?x" by (simp add: min_def)
    also have "Min (insert (min d ?x) ?S) = Min (insert d (insert ?x ?S))"
    proof (cases "?S = {}")
      case True
      then show ?thesis by simp
    next
      case False
      then show ?thesis using fin by (simp add: min.assoc)
    qed
    finally show ?thesis using False by simp
  qed
qed

lemma minDistancesOf_eq: "minDistancesOf cps = map (nearestDistance cps) [0..<length cps]"
  by (simp add: minDistancesOf_def nearestDistance_def minDistanceLoop_eq)

lemma discardLoop_eq:
  "discardLoop cps md thr is acc = acc @ map ((!) cps) (filter (\<lambda>i. md ! i < thr) is)"
  by (induction "is" arbitrary: acc) simp_all

lemma removeContourOutliers_eq:
  assumes "cps \<noteq> []"
  shows "removeContourOutliers cps = Inr (keptStrictlyBelow cps)"
proof -
  let ?md = "map (nearestDistance cps) [0..<length cps]"
  have len: "length (sort ?md) = length cps" by simp
  have "length cps div 2 < length cps" using assms by simp
  then have med: "vec_at (sort ?md) (int (length (sort ?md) div 2)) = Inr (medianNearestDistance cps)"
    unfolding len
    by (subst vec_at_in_range) (simp_all add: medianNearestDistance_def upperMedian_def)
  have flt: "filter (\<lambda>i. ?md ! i < thr) [0..<length cps] =
      filter (\<lambda>i. nearestDistance cps i < thr) [0..<length cps]" for thr
    by (rule filter_cong) simp_all
  show ?thesis
    unfolding removeContourOutliers_def Let_def minDistancesOf_eq med
    by (simp add: discardLoop_eq flt keptStrictlyBelow_def)
qed

lemma sqrt_nine: "sqrt 9 = 3"
  by (rule real_sqrt_unique) simp_all

lemma FLT_MAX_large: "1 < FLT_MAX" "2 < FLT_MAX" "3 < FLT_MAX"
  by (simp_all add: FLT_MAX_def)

lemma threeInLine_indices: "[0..<length threeInLine] = [0, 1, 2]"
  by (simp add: threeInLine_def upt_conv_Cons)

lemma threeInLine_nearest: "map (nearestDistance threeInLine) [0, 1, 2] = [1, 1, 2]"
  unfolding nearestDistance_def threeInLine_indices
  using FLT_MAX_large
  by (simp add: threeInLine_def pointPatch_def norm2_def psub_def sqrt_nine)

lemma threeInLine_median: "medianNearestDistance threeInLine = 1"
  unfolding medianNearestDistance_def upperMedian_def threeInLine_indices threeInLine_nearest
  by simp

lemma threeInLine_kept:
  "keptStrictlyBelow threeInLine = [pointPatch 0 0, pointPatch 1 0]"
  "keptNotExceeding threeInLine = threeInLine"
  unfolding keptStrictlyBelow_def keptNotExceeding_def threeInLine_median threeInLine_indices
  using threeInLine_nearest by (simp_all add: threeInLine_def)

text \<open>
  C6, as the code has it: on a list that is not empty \<^verbatim>\<open>removeContourOutliers\<close> returns, in
  their order, exactly the patches whose least distance to another centroid is strictly
  below twice the median of these least distances (the entry at half the length of the
  sorted distances); a patch is dropped if and only if its least distance reaches twice
  the median.
\<close>

theorem removeContourOutliers_keeps_strictly_below:
  assumes "colorPatchList \<noteq> []"
  shows "removeContourOutliers colorPatchList = Inr (keptStrictlyBelow colorPatchList)"
  using assms by (rule removeContourOutliers_eq)

theorem removeContourOutliers_keeps_strictly_below_witness:
  "threeInLine \<noteq> [] \<and> removeContourOutliers threeInLine = Inr [pointPatch 0 0, pointPatch 1 0]"
proof -
  have ne: "threeInLine \<noteq> []" by (simp add: threeInLine_def)
  from removeContourOutliers_keeps_strictly_below[OF ne] ne show ?thesis
    by (simp add: threeInLine_kept)
qed

text \<open>
  C6, as the claim states it, fails on three patches at abscissas 0, 1 and 3: the least
  distance of the third is 2, twice the median 1, so it does not exceed the threshold,
  and the code drops it.
\<close>

theorem removeContourOutliers_threshold_counterexample:
  "removeContourOutliers threeInLine \<noteq> Inr (keptNotExceeding threeInLine)"
proof -
  have "threeInLine \<noteq> []" by (simp add: threeInLine_def)
  then have "removeContourOutliers threeInLine = Inr (keptStrictlyBelow threeInLine)"
    by (rule removeContourOutliers_eq)
  then show ?thesis by (simp add: threeInLine_kept) (simp add: threeInLine_def)
qed

subsection \<open>Black level\<close>

lemma getRaw_ok:
  "files w cfg = Some json \<Longrightarrow>
   getRaw w cfg raw16 = Inr (loadedRawImage (newCameraIsp w json (getBitsPerPixel raw16)) raw16)"
  by (simp add: getRaw_def getJson_def)

lemma length_selectionStep [simp]: "length (fst (selectionStep meds st i)) = length (fst st)"
  by (simp add: selectionStep_def)

lemma blackLevelLoop_eq:
  assumes "getRaw w cfg raw16 = Inr rawN"
    and "\<forall>i\<in>set is. i < length (fst st) \<and>
           getRgbMedianMask w rawN (drawContoursFilled cv cf i) cfg True = Inr (meds ! i)"
  shows "blackLevelLoop w cv cfg raw16 cf is st = Inr (foldl (selectionStep meds) st is)"
  using assms(2)
proof (induction "is" arbitrary: st)
  case Nil
  then show ?case by simp
next
  case (Cons i "is")
  have i: "i < length (fst st)"
    and m: "getRgbMedianMask w rawN (drawContoursFilled cv cf i) cfg True = Inr (meds ! i)"
    using Cons.prems by simp_all
  have rest: "\<forall>j\<in>set is. j < length (fst (selectionStep meds st i)) \<and>
           getRgbMedianMask w rawN (drawContoursFilled cv cf j) cfg True = Inr (meds ! j)"
    using Cons.prems by simp
  have s: "vec_set (fst st) (int i) (meds ! i) = Inr ((fst st)[i := meds ! i])"
    using i by (simp add: vec_set_def)
  have step: "blackLevelLoop w cv cfg raw16 cf (i # is) st =
      blackLevelLoop w cv cfg raw16 cf is (selectionStep meds st i)"
    by (cases "norm3 (meds ! i) < fst (snd st)")
      (simp_all add: assms(1) m s Let_def selectionStep_def)
  show ?case
    unfolding step using Cons.IH[OF rest] by simp
qed

lemma selection_invariant:
  assumes "n \<le> length meds"
  shows "case foldl (selectionStep meds) (replicate (length meds) z, DBL_MAX, 0) [0..<n] of
           (bls, mn, idx) \<Rightarrow>
             length bls = length meds \<and> (\<forall>j<n. bls ! j = meds ! j) \<and> 0 \<le> idx \<and>
             (\<forall>j<n. mn \<le> norm3 (meds ! j)) \<and>
             ((mn = DBL_MAX \<and> idx = 0) \<or> (nat idx < n \<and> mn = norm3 (meds ! nat idx)))"
  using assms
proof (induction n)
  case 0
  then show ?case by simp
next
  case (Suc n)
  obtain bls mn idx where st: "foldl (selectionStep meds) (replicate (length meds) z, DBL_MAX, 0) [0..<n] = (bls, mn, idx)"
    by (cases "foldl (selectionStep meds) (replicate (length meds) z, DBL_MAX, 0) [0..<n]") auto
  have IH: "length bls = length meds" "\<forall>j<n. bls ! j = meds ! j" "0 \<le> idx"
    "\<forall>j<n. mn \<le> norm3 (meds ! j)"
    "(mn = DBL_MAX \<and> idx = 0) \<or> (nat idx < n \<and> mn = norm3 (meds ! nat idx))"
    using Suc.IH Suc.prems st by simp_all
  have n: "n < length bls" using Suc.prems IH(1) by simp
  have next_st: "foldl (selectionStep meds) (replicate (length meds) z, DBL_MAX, 0) [0..<Suc n] =
      selectionStep meds (bls, mn, idx) n"
    by (simp add: st)
  show ?case
  proof (cases "norm3 (meds ! n) < mn")
    case True
    then show ?thesis
      unfolding next_st unfolding selectionStep_def
      using IH n by (auto simp: nth_list_update less_Suc_eq)
  next
    case False
    then show ?thesis
      unfolding next_st unfolding selectionStep_def
      using IH n by (auto simp: nth_list_update less_Suc_eq)
  qed
qed

lemma FLT_MAX_below_DBL_MAX: "2 * FLT_MAX < DBL_MAX"
  by (simp add: FLT_MAX_def DBL_MAX_def)

lemma norm3_float:
  assumes "floatVec3 m"
  shows "norm3 m < DBL_MAX"
proof -
  obtain a b c where m: "m = Vec3f a b c" by (cases m)
  have F: "0 \<le> FLT_MAX" by (simp add: FLT_MAX_def)
  have sq: "x * x \<le> FLT_MAX * FLT_MAX" if "\<bar>x\<bar> \<le> FLT_MAX" for x
  proof -
    have "\<bar>x\<bar> * \<bar>x\<bar> \<le> FLT_MAX * FLT_MAX"
      using that F by (intro mult_mono) simp_all
    then show ?thesis by simp
  qed
  have "a * a + b * b + c * c \<le> (2 * FLT_MAX) * (2 * FLT_MAX)"
  proof -
    have "a * a + b * b + c * c \<le> 3 * (FLT_MAX * FLT_MAX)"
      using sq[of a] sq[of b] sq[of c] assms by (simp add: m)
    also have "\<dots> \<le> 4 * (FLT_MAX * FLT_MAX)"
      using F by simp
    finally show ?thesis by simp
  qed
  then have "sqrt (a * a + b * b + c * c) \<le> sqrt ((2 * FLT_MAX) * (2 * FLT_MAX))"
    by (rule real_sqrt_le_mono)
  also have "\<dots> = \<bar>2 * FLT_MAX\<bar>" by (rule real_sqrt_abs2)
  also have "\<dots> = 2 * FLT_MAX" using F by simp
  also have "\<dots> < DBL_MAX" by (rule FLT_MAX_below_DBL_MAX)
  finally show ?thesis by (simp add: m)
qed


lemma round_ratio: "\<not> 100 / (pi * 6 * 6) < (1 / 2 :: real)"
proof -
  have "pi * 6 * 6 < 200" using pi_less_4 by simp
  moreover have "0 < pi * 6 * 6" using pi_gt_zero by simp
  ultimately show ?thesis by (simp add: field_simps)
qed

lemma toInt_small: "toInt 100 = Inr 100" "toInt 3 = Inr 3"
  by (simp_all add: toInt_def)

lemma filter_sample:
  "filterBlackHoleContours cv0 [ring 0, speck, ring 2] = Inr [ring 0, ring 2]"
  using round_ratio
  by (simp add: cv0_def ring_def speck_def toInt_small kNumPixelsMin_def kMinNumVertices_def
      kMaxRatioAreas_def Let_def)

lemma medians_sample:
  "map (\<lambda>i. getRgbMedianMask world1 darkFrame (drawContoursFilled cv0 [ring 0, ring 2] i) ''isp.json'' True) [0, 1]
    = map Inr [Vec3f (2 / 10) (3 / 10) (1 / 10), Vec3f (2 / 100) (3 / 100) (1 / 100)]"
  by code_simp


lemma medians_of_map:
  assumes "map f [0..<n] = map Inr meds"
  shows "length meds = n" and "\<forall>i<n. f i = Inr (meds ! i)"
proof -
  show len: "length meds = n"
    using map_eq_imp_length_eq[OF assms] by simp
  show "\<forall>i<n. f i = Inr (meds ! i)"
  proof (intro allI impI)
    fix i assume i: "i < n"
    have "map f [0..<n] ! i = map Inr meds ! i" using assms by simp
    then show "f i = Inr (meds ! i)" using i len by simp
  qed
qed

lemma findBlackLevel_as_fold:
  assumes "files w cfg = Some json"
    and "filterBlackHoleContours cv contours = Inr cf"
    and "map (\<lambda>i. getRgbMedianMask w
                 (loadedRawImage (newCameraIsp w json (getBitsPerPixel raw16)) raw16)
                 (drawContoursFilled cv cf i) cfg True) [0..<length cf] = map Inr meds"
  shows "findBlackLevel w cv raw16 contours cfg =
     (case foldl (selectionStep meds) (replicate (length meds) (Vec3f 0 0 0), DBL_MAX, 0)
             [0..<length meds] of
        (bls, mn, idx) \<Rightarrow> vec_at bls idx)"
proof -
  note m = medians_of_map[OF assms(3)]
  have "blackLevelLoop w cv cfg raw16 cf [0..<length cf]
          (replicate (length cf) (Vec3f 0 0 0), DBL_MAX, 0) =
        Inr (foldl (selectionStep meds) (replicate (length cf) (Vec3f 0 0 0), DBL_MAX, 0)
               [0..<length cf])"
    by (rule blackLevelLoop_eq[OF getRaw_ok[OF assms(1)]]) (use m(2) in simp)
  then show ?thesis
    by (simp add: findBlackLevel_def getJson_def assms(1,2) m(1) split: prod.splits)
qed

lemma findBlackLevel_minimal_among:
  assumes "files w ispConfigFile = Some json"
    and "filterBlackHoleContours cv contours = Inr contoursFiltered"
    and "contoursFiltered \<noteq> []"
    and "map (\<lambda>i. getRgbMedianMask w
                 (loadedRawImage (newCameraIsp w json (getBitsPerPixel raw16)) raw16)
                 (drawContoursFilled cv contoursFiltered i) ispConfigFile True)
           [0..<length contoursFiltered] = map Inr meds"
    and "list_all floatVec3 meds"
  shows "\<exists>bl. findBlackLevel w cv raw16 contours ispConfigFile = Inr bl \<and>
           bl \<in> set meds \<and> list_all (\<lambda>m. norm3 bl \<le> norm3 m) meds"
proof -
  have len: "length meds = length contoursFiltered"
    using medians_of_map(1)[OF assms(4)] .
  then have pos: "0 < length meds" using assms(3) by simp
  obtain bls mn idx where st:
    "foldl (selectionStep meds) (replicate (length meds) (Vec3f 0 0 0), DBL_MAX, 0)
       [0..<length meds] = (bls, mn, idx)"
    by (cases "foldl (selectionStep meds) (replicate (length meds) (Vec3f 0 0 0), DBL_MAX, 0)
       [0..<length meds]") auto
  have inv: "length bls = length meds" "\<forall>j<length meds. bls ! j = meds ! j" "0 \<le> idx"
    "\<forall>j<length meds. mn \<le> norm3 (meds ! j)"
    "(mn = DBL_MAX \<and> idx = 0) \<or> (nat idx < length meds \<and> mn = norm3 (meds ! nat idx))"
    using selection_invariant[of "length meds" meds "Vec3f 0 0 0"] st by simp_all
  have "norm3 (meds ! 0) < DBL_MAX"
    using assms(5) pos by (intro norm3_float) (simp add: list_all_length)
  then have "mn \<noteq> DBL_MAX" using inv(4) pos by auto
  then have idx: "nat idx < length meds" "mn = norm3 (meds ! nat idx)" using inv(5) by auto
  have res: "findBlackLevel w cv raw16 contours ispConfigFile = Inr (meds ! nat idx)"
    using idx(1) inv(1,2,3)
    by (simp add: findBlackLevel_as_fold[OF assms(1,2,4)] st vec_at_def)
  have "list_all (\<lambda>m. norm3 (meds ! nat idx) \<le> norm3 m) meds"
    using inv(4) idx(2) by (simp add: list_all_length)
  then show ?thesis using res idx(1) by simp
qed

lemma mat_at_inImage: "inImage d p \<Longrightarrow> mat_at d p = Inr (pixelAt d p)"
  by (simp add: inImage_def mat_at_def vec_at_def pixelAt_def)

lemma channelOf_cases:
  "channelOf isp p = 0 \<and> isChannel isp 0 p \<and> \<not> isChannel isp 1 p \<and> \<not> isChannel isp 2 p \<or>
   channelOf isp p = 1 \<and> \<not> isChannel isp 0 p \<and> isChannel isp 1 p \<and> \<not> isChannel isp 2 p \<or>
   channelOf isp p = 2 \<and> \<not> isChannel isp 0 p \<and> \<not> isChannel isp 1 p \<and> isChannel isp 2 p"
  by (auto simp: channelOf_def isChannel_def)

lemma populateChannels_raw:
  assumes "list_all (inImage d) locs"
  shows "populateChannels isp (Mat32F d) True locs [r, g, b] =
     Inr [r @ channelValues isp d locs 0, g @ channelValues isp d locs 1,
          b @ channelValues isp d locs 2]"
  using assms
proof (induction locs arbitrary: r g b)
  case Nil
  then show ?case by (simp add: channelValues_def)
next
  case (Cons p locs)
  have "inImage d p" using Cons.prems by simp
  then have p: "mat_at d p = Inr (pixelAt d p)"
    by (rule mat_at_inImage)
  have rest: "list_all (inImage d) locs" using Cons.prems by simp
  note IH = Cons.IH[OF rest]
  from channelOf_cases[of isp p] show ?case
    by (elim disjE conjE) (simp_all add: p push_back_ch_def IH channelValues_def)
qed

lemma medianOfBucket_upperMedian:
  "bucket \<noteq> [] \<Longrightarrow> medianOfBucket bucket = Inr (upperMedian bucket)"
  unfolding medianOfBucket_def upperMedian_def
  by (subst vec_at_in_range) simp_all

lemma medianChannels_three:
  assumes "r \<noteq> []" "g \<noteq> []" "b \<noteq> []"
  shows "medianChannels [r, g, b] [0..<kNumChannels] init =
     Inr (Vec3f (upperMedian r) (upperMedian g) (upperMedian b))"
  by (cases init) (simp add: channels3 medianOfBucket_upperMedian assms)

lemma getRgbMedianMask_raw:
  assumes "findNonZero msk = Inr locs"
    and "files w cfg = Some json"
    and "measurable (newCameraIsp w json 16) d locs"
  shows "getRgbMedianMask w (Mat32F d) msk cfg True = Inr (maskMedian (newCameraIsp w json 16) d locs)"
proof -
  have in_img: "list_all (inImage d) locs"
    and ne: "channelValues (newCameraIsp w json 16) d locs 0 \<noteq> []"
      "channelValues (newCameraIsp w json 16) d locs 1 \<noteq> []"
      "channelValues (newCameraIsp w json 16) d locs 2 \<noteq> []"
    using assms(3) by (simp_all add: measurable_def)
  have rep: "replicate kNumChannels [] = [[], [], []::real list]"
    by (simp add: kNumChannels_def numeral_3_eq_3)
  have med: "medianChannels
      [[] @ channelValues (newCameraIsp w json 16) d locs 0,
       [] @ channelValues (newCameraIsp w json 16) d locs 1,
       [] @ channelValues (newCameraIsp w json 16) d locs 2]
      [0..<kNumChannels] (Vec3f (- 1) (- 1) (- 1)) =
      Inr (maskMedian (newCameraIsp w json 16) d locs)"
    unfolding maskMedian_def append_Nil by (rule medianChannels_three[OF ne])
  show ?thesis
    by (simp only: getRgbMedianMask_def rep assms(1) ebind_Inr getJson_def assms(2) option.case
        getBitsPerPixel.simps populateChannels_raw[OF in_img] med)
qed

lemma toInt_representable:
  "representableArea cv cont \<Longrightarrow> toInt (contourArea cv cont) = Inr \<lfloor>contourArea cv cont\<rfloor>"
  by (simp add: toInt_def representableArea_def)

lemma filterBlackHoleContours_eq:
  assumes "list_all (representableArea cv) contours"
  shows "filterBlackHoleContours cv contours = Inr (filter (passesBlackHoleFilter cv) contours)"
  using assms
proof (induction contours)
  case Nil
  then show ?case by simp
next
  case (Cons cont contours)
  then have IH: "filterBlackHoleContours cv contours = Inr (filter (passesBlackHoleFilter cv) contours)"
    and t: "toInt (contourArea cv cont) = Inr \<lfloor>contourArea cv cont\<rfloor>"
    by (simp_all add: toInt_representable)
  have c: "(\<lfloor>contourArea cv cont\<rfloor> < kNumPixelsMin \<or>
       int (length cont) < kMinNumVertices \<or>
       (pi * minEnclosingCircleRadius cv cont * minEnclosingCircleRadius cv cont \<noteq> 0 \<and>
        real_of_int \<lfloor>contourArea cv cont\<rfloor> /
          (pi * minEnclosingCircleRadius cv cont * minEnclosingCircleRadius cv cont)
          < kMaxRatioAreas)) = (\<not> passesBlackHoleFilter cv cont)"
    unfolding passesBlackHoleFilter_def kNumPixelsMin_def kMinNumVertices_def kMaxRatioAreas_def
    by (simp only: not_le not_less de_Morgan_conj de_Morgan_disj) auto
  show ?case
    by (simp only: filterBlackHoleContours.simps t ebind_Inr Let_def c IH filter.simps
        if_not_P if_P split: if_splits) simp
qed

lemma upperMedian_mem: "xs \<noteq> [] \<Longrightarrow> upperMedian xs \<in> set xs"
proof -
  assume "xs \<noteq> []"
  then have "length xs div 2 < length (sort xs)" by simp
  then have "sort xs ! (length xs div 2) \<in> set (sort xs)" by (rule nth_mem)
  then show ?thesis by (simp add: upperMedian_def)
qed

lemma pixelAt_bounded:
  assumes "list_all (list_all (\<lambda>v. \<bar>v\<bar> \<le> FLT_MAX)) d" "inImage d p"
  shows "\<bar>pixelAt d p\<bar> \<le> FLT_MAX"
proof -
  have "nat (snd p) < length d" "nat (fst p) < length (d ! nat (snd p))"
    using assms(2) by (auto simp: inImage_def)
  then have row: "d ! nat (snd p) \<in> set d"
    and "pixelAt d p \<in> set (d ! nat (snd p))"
    by (simp_all add: pixelAt_def)
  then show ?thesis using assms(1) row by (auto simp: list_all_iff)
qed

lemma maskMedian_float:
  assumes "list_all (list_all (\<lambda>v. \<bar>v\<bar> \<le> FLT_MAX)) d" "measurable isp d locs"
  shows "floatVec3 (maskMedian isp d locs)"
proof -
  have b: "\<bar>upperMedian (channelValues isp d locs ch)\<bar> \<le> FLT_MAX"
    if "channelValues isp d locs ch \<noteq> []" for ch
  proof -
    from upperMedian_mem[OF that]
    obtain p where "p \<in> set locs" "upperMedian (channelValues isp d locs ch) = pixelAt d p"
      by (auto simp: channelValues_def)
    then show ?thesis
      using pixelAt_bounded[OF assms(1), of p] assms(2) by (simp add: measurable_def list_all_iff)
  qed
  show ?thesis
    using assms(2) by (simp add: maskMedian_def measurable_def b)
qed


lemma medians_as_specified:
  assumes "files w cfg = Some json"
    and "map (\<lambda>i. findNonZero (drawContoursFilled cv cf i)) [0..<length cf] = map Inr locss"
    and "list_all (measurable (newCameraIsp w json 16) d) locss"
  shows "map (\<lambda>i. getRgbMedianMask w (Mat32F d) (drawContoursFilled cv cf i) cfg True)
           [0..<length cf] = map Inr (map (maskMedian (newCameraIsp w json 16) d) locss)"
proof -
  note l = medians_of_map[OF assms(2)]
  show ?thesis
  proof (rule nth_equalityI)
    show "length (map (\<lambda>i. getRgbMedianMask w (Mat32F d) (drawContoursFilled cv cf i) cfg True)
           [0..<length cf]) = length (map Inr (map (maskMedian (newCameraIsp w json 16) d) locss))"
      using l(1) by simp
  next
    fix i
    assume "i < length (map (\<lambda>i. getRgbMedianMask w (Mat32F d) (drawContoursFilled cv cf i) cfg True)
           [0..<length cf])"
    then have i: "i < length cf" by simp
    then have fz: "findNonZero (drawContoursFilled cv cf i) = Inr (locss ! i)"
      using l(2) by simp
    have "measurable (newCameraIsp w json 16) d (locss ! i)"
      using assms(3) i l(1) by (simp add: list_all_length)
    from getRgbMedianMask_raw[OF fz assms(1) this] i l(1)
    show "map (\<lambda>i. getRgbMedianMask w (Mat32F d) (drawContoursFilled cv cf i) cfg True)
           [0..<length cf] ! i = map Inr (map (maskMedian (newCameraIsp w json 16) d) locss) ! i"
      by simp
  qed
qed

text \<open>
  C8: where the configuration file can be read, the normalized frame is an image of
  \<^verbatim>\<open>float\<close> values, at least one contour passes the filter on area, number of vertices and
  circularity, and the mask of every contour that passes can be measured,
  \<^verbatim>\<open>findBlackLevel\<close> returns the median vector of one of the contours that pass (for each
  channel the median of the pixels of that channel under the filled contour), and none of
  these median vectors has a smaller Euclidean norm.
\<close>

theorem findBlackLevel_minimal_norm:
  assumes "files w ispConfigFile = Some json"
    and "loadedRawImage (newCameraIsp w json (getBitsPerPixel raw16)) raw16 = Mat32F d"
    and "list_all (representableArea cv) contours"
    and "filter (passesBlackHoleFilter cv) contours \<noteq> []"
    and "map (\<lambda>i. findNonZero
                 (drawContoursFilled cv (filter (passesBlackHoleFilter cv) contours) i))
           [0..<length (filter (passesBlackHoleFilter cv) contours)] = map Inr locss"
    and "list_all (measurable (newCameraIsp w json 16) d) locss"
    and "list_all (list_all (\<lambda>v. \<bar>v\<bar> \<le> FLT_MAX)) d"
  shows "\<exists>bl. findBlackLevel w cv raw16 contours ispConfigFile = Inr bl \<and>
           bl \<in> set (map (maskMedian (newCameraIsp w json 16) d) locss) \<and>
           list_all (\<lambda>locs. norm3 bl \<le> norm3 (maskMedian (newCameraIsp w json 16) d locs)) locss"
proof -
  let ?cf = "filter (passesBlackHoleFilter cv) contours"
  let ?meds = "map (maskMedian (newCameraIsp w json 16) d) locss"
  have flt: "filterBlackHoleContours cv contours = Inr ?cf"
    using assms(3) by (rule filterBlackHoleContours_eq)
  have meds: "map (\<lambda>i. getRgbMedianMask w
                 (loadedRawImage (newCameraIsp w json (getBitsPerPixel raw16)) raw16)
                 (drawContoursFilled cv ?cf i) ispConfigFile True) [0..<length ?cf] = map Inr ?meds"
    unfolding assms(2) using assms(1,5,6) by (rule medians_as_specified)
  have fl: "list_all floatVec3 ?meds"
    using assms(6) maskMedian_float[OF assms(7)] by (simp add: list_all_iff)
  from findBlackLevel_minimal_among[OF assms(1) flt assms(4) meds fl]
  show ?thesis by (simp add: list_all_iff)
qed

lemma survivors_black: "filter (passesBlackHoleFilter cvBlack) blackContours = [ring 0, ring 3]"
proof -
  have big: "1 / 2 \<le> 100 / (pi * 6 * 6)" using round_ratio by simp
  have "pi * 20 * 20 > 200" using pi_ge_two by simp
  then have small: "\<not> 1 / 2 \<le> 100 / (pi * 20 * 20)"
    using pi_gt_zero by (simp add: field_simps)
  have ne: "pi * 20 * 20 \<noteq> 0" using pi_gt_zero by simp
  show ?thesis
    using big small ne
    by (simp add: blackContours_def passesBlackHoleFilter_def cvBlack_def cv0_def sliver_def
        speck_def square4_def ring_def)
qed

lemma locs_black:
  "map (\<lambda>i. findNonZero (drawContoursFilled cvBlack [ring 0, ring 3] i)) [0..<length [ring 0, ring 3]]
     = map Inr [leftLocs, rightLocs]"
  by code_simp

lemma medians_black:
  "map (maskMedian (newCameraIsp world2 ''{}'' 16) shadedData) [leftLocs, rightLocs] =
     [Vec3f (1 / 4) (8 / 25) (1 / 10), Vec3f (1 / 50) (4 / 125) (3 / 250)]"
  by code_simp

lemma measurable_black:
  "list_all (measurable (newCameraIsp world2 ''{}'' 16) shadedData) [leftLocs, rightLocs]"
  by code_simp

lemma representable_black: "list_all (representableArea cvBlack) blackContours"
  by (simp add: representableArea_def cvBlack_def cv0_def blackContours_def)

theorem findBlackLevel_minimal_norm_witness:
  "files world2 ''isp.json'' = Some ''{}'' \<and>
   loadedRawImage (newCameraIsp world2 ''{}'' (getBitsPerPixel rawFrame6)) rawFrame6 =
     Mat32F shadedData \<and>
   list_all (representableArea cvBlack) blackContours \<and>
   filter (passesBlackHoleFilter cvBlack) blackContours = [ring 0, ring 3] \<and>
   map (maskMedian (newCameraIsp world2 ''{}'' 16) shadedData) [leftLocs, rightLocs] =
     [Vec3f (1 / 4) (8 / 25) (1 / 10), Vec3f (1 / 50) (4 / 125) (3 / 250)] \<and>
   findBlackLevel world2 cvBlack rawFrame6 blackContours ''isp.json'' =
     Inr (Vec3f (1 / 50) (4 / 125) (3 / 250))"
proof -
  have f: "files world2 ''isp.json'' = Some ''{}''" by (simp add: world2_def)
  have raw: "loadedRawImage (newCameraIsp world2 ''{}'' (getBitsPerPixel rawFrame6)) rawFrame6 =
      Mat32F shadedData"
    by (simp add: world2_def)
  have ne: "filter (passesBlackHoleFilter cvBlack) blackContours \<noteq> []"
    by (simp add: survivors_black)
  have locs: "map (\<lambda>i. findNonZero
                 (drawContoursFilled cvBlack (filter (passesBlackHoleFilter cvBlack) blackContours) i))
           [0..<length (filter (passesBlackHoleFilter cvBlack) blackContours)] =
         map Inr [leftLocs, rightLocs]"
    unfolding survivors_black by (rule locs_black)
  have fl: "list_all (list_all (\<lambda>v. \<bar>v\<bar> \<le> FLT_MAX)) shadedData"
    by (simp add: shadedData_def FLT_MAX_def)
  have each: "maskMedian (newCameraIsp world2 ''{}'' 16) shadedData leftLocs =
        Vec3f (1 / 4) (8 / 25) (1 / 10)"
      "maskMedian (newCameraIsp world2 ''{}'' 16) shadedData rightLocs =
        Vec3f (1 / 50) (4 / 125) (3 / 250)"
    using medians_black by simp_all
  from findBlackLevel_minimal_norm[OF f raw representable_black ne locs measurable_black fl]
  obtain bl where bl: "findBlackLevel world2 cvBlack rawFrame6 blackContours ''isp.json'' = Inr bl"
    and mem: "bl = Vec3f (1 / 4) (8 / 25) (1 / 10) \<or> bl = Vec3f (1 / 50) (4 / 125) (3 / 250)"
    and le: "norm3 bl \<le> norm3 (Vec3f (1 / 50) (4 / 125) (3 / 250))"
    unfolding medians_black by (auto simp: each)
  have "\<not> norm3 (Vec3f (1 / 4) (8 / 25) (1 / 10)) \<le> norm3 (Vec3f (1 / 50) (4 / 125) (3 / 250))"
    by simp
  then have "bl = Vec3f (1 / 50) (4 / 125) (3 / 250)" using mem le by auto
  then show ?thesis
    using f raw representable_black survivors_black medians_black bl by simp
qed

text \<open>
  C10: \<^verbatim>\<open>findBlackLevel\<close> has no error path for a frame without a black region. Where the
  configuration file can be read and no contour passes the filter, the selection reads
  entry 0 of the empty vector \<open>blackLevels\<close>; where at least one contour passes and the
  medians can be measured, every access of the selection is inside its vector and the
  call returns.
\<close>

theorem findBlackLevel_selection_in_bounds:
  assumes "files w ispConfigFile = Some json"
    and "filterBlackHoleContours cv contours = Inr contoursFiltered"
  shows "(contoursFiltered = [] \<longrightarrow>
            findBlackLevel w cv raw16 contours ispConfigFile = Inl (Undefined IndexOutOfRange)) \<and>
         (contoursFiltered \<noteq> [] \<and>
          map (\<lambda>i. getRgbMedianMask w
                 (loadedRawImage (newCameraIsp w json (getBitsPerPixel raw16)) raw16)
                 (drawContoursFilled cv contoursFiltered i) ispConfigFile True)
            [0..<length contoursFiltered] = map Inr meds \<longrightarrow>
            (\<exists>bl. findBlackLevel w cv raw16 contours ispConfigFile = Inr bl))"
proof (intro conjI impI)
  assume "contoursFiltered = []"
  then show "findBlackLevel w cv raw16 contours ispConfigFile = Inl (Undefined IndexOutOfRange)"
    by (simp add: findBlackLevel_def getJson_def assms)
next
  assume a: "contoursFiltered \<noteq> [] \<and>
          map (\<lambda>i. getRgbMedianMask w
                 (loadedRawImage (newCameraIsp w json (getBitsPerPixel raw16)) raw16)
                 (drawContoursFilled cv contoursFiltered i) ispConfigFile True)
            [0..<length contoursFiltered] = map Inr meds"
  then have len: "length meds = length contoursFiltered"
    using medians_of_map(1) by blast
  then have pos: "0 < length meds" using a by simp
  obtain bls mn idx where st:
    "foldl (selectionStep meds) (replicate (length meds) (Vec3f 0 0 0), DBL_MAX, 0)
       [0..<length meds] = (bls, mn, idx)"
    by (cases "foldl (selectionStep meds) (replicate (length meds) (Vec3f 0 0 0), DBL_MAX, 0)
       [0..<length meds]") auto
  have inv: "length bls = length meds" "0 \<le> idx"
    "(mn = DBL_MAX \<and> idx = 0) \<or> (nat idx < length meds \<and> mn = norm3 (meds ! nat idx))"
    using selection_invariant[of "length meds" meds "Vec3f 0 0 0"] st by simp_all
  then have "nat idx < length bls" using pos by auto
  then have "vec_at bls idx = Inr (bls ! nat idx)"
    using inv(2) by (simp add: vec_at_def)
  then show "\<exists>bl. findBlackLevel w cv raw16 contours ispConfigFile = Inr bl"
    using a by (simp add: findBlackLevel_as_fold[OF assms(1,2)] st)
qed

lemma filter_speck: "filterBlackHoleContours cv0 [speck] = Inr []"
  by (simp add: cv0_def speck_def toInt_small kNumPixelsMin_def Let_def)

theorem findBlackLevel_selection_in_bounds_witness:
  "files world1 ''isp.json'' = Some ''{}'' \<and>
   filterBlackHoleContours cv0 [speck] = Inr [] \<and>
   findBlackLevel world1 cv0 rawFrame [speck] ''isp.json'' = Inl (Undefined IndexOutOfRange) \<and>
   filterBlackHoleContours cv0 [ring 0, speck, ring 2] = Inr [ring 0, ring 2] \<and>
   (\<exists>bl. findBlackLevel world1 cv0 rawFrame [ring 0, speck, ring 2] ''isp.json'' = Inr bl)"
proof -
  have f: "files world1 ''isp.json'' = Some ''{}''" by (simp add: world1_def)
  have raw: "loadedRawImage (newCameraIsp world1 ''{}'' (getBitsPerPixel rawFrame)) rawFrame = darkFrame"
    by (simp add: world1_def)
  have idx: "[0..<length [ring 0, ring 2]] = [0, 1]" by (simp add: upt_conv_Cons)
  have none: "findBlackLevel world1 cv0 rawFrame [speck] ''isp.json'' = Inl (Undefined IndexOutOfRange)"
    using findBlackLevel_selection_in_bounds[OF f filter_speck, of rawFrame] by simp
  have some: "\<exists>bl. findBlackLevel world1 cv0 rawFrame [ring 0, speck, ring 2] ''isp.json'' = Inr bl"
    using findBlackLevel_selection_in_bounds[OF f filter_sample, of rawFrame
        "[Vec3f (2 / 10) (3 / 10) (1 / 10), Vec3f (2 / 100) (3 / 100) (1 / 100)]"]
    unfolding raw idx using medians_sample by simp
  from f filter_speck none filter_sample some show ?thesis by simp
qed

subsection \<open>Detection of the chart\<close>

lemma findChart_Cons:
  "findChart cc W H (label # labels) =
     (case findChart cc W H [label] of Some c \<Rightarrow> Some c | None \<Rightarrow> findChart cc W H labels)"
  by (simp add: Let_def)

lemma findChart_none:
  "list_all (\<lambda>label. \<not> labelQualifies cc W H label) labels \<Longrightarrow> findChart cc W H labels = None"
proof (induction labels)
  case Nil
  then show ?case by simp
next
  case (Cons label labels)
  then have "findChart cc W H [label] = None" "findChart cc W H labels = None"
    by (simp_all add: labelQualifies_def)
  then show ?case by (subst findChart_Cons) simp
qed

lemma takeRow_lengths:
  assumes "takeRow W iw cs = (row, rest)"
  shows "length row = min (nat W) (length cs)" "length rest = length cs - min (nat W) (length cs)"
  using assms by (auto simp: takeRow_def Let_def)

lemma sortPatchesLoop_returns:
  assumes "1 \<le> W"
  shows "\<exists>out. sortPatchesLoop W iw cs acc = Some out \<and> length out = length acc + length cs"
proof (induction "length cs" arbitrary: cs acc rule: less_induct)
  case less
  show ?case
  proof (cases "cs = []")
    case True
    then show ?thesis by (subst sortPatchesLoop.simps) simp
  next
    case False
    obtain row rest where tr: "takeRow W iw cs = (row, rest)"
      by (cases "takeRow W iw cs") auto
    note l = takeRow_lengths[OF tr]
    have pos: "0 < min (nat W) (length cs)" using assms False by simp
    then have "length rest < length cs" using l(2) False by simp
    from less[OF this, of "acc @ row"]
    obtain out where out: "sortPatchesLoop W iw rest (acc @ row) = Some out"
      "length out = length (acc @ row) + length rest" by blast
    have "sortPatchesLoop W iw cs acc = Some out"
      using False by (subst sortPatchesLoop.simps) (simp add: tr out(1))
    moreover have "length out = length acc + length cs"
      using out(2) l by simp
    ultimately show ?thesis by blast
  qed
qed

lemma length_reorderPatches: "length (reorderPatches cps cs) \<le> length cs"
  unfolding reorderPatches_def
  by (induction cs) (auto split: option.splits)

lemma sortPatches_returns:
  assumes "1 \<le> W"
  shows "\<exists>ps. sortPatches cps W iw = Some ps \<and> length ps \<le> length cps"
proof -
  from sortPatchesLoop_returns[OF assms, of iw "map centroid cps" "[]"]
  obtain out where out: "sortPatchesLoop W iw (map centroid cps) [] = Some out"
    "length out = length cps" by auto
  have "length (reorderPatches cps out) \<le> length cps"
    using length_reorderPatches[of cps out] out(2) by simp
  then show ?thesis by (simp add: sortPatches_def out(1))
qed

lemma length_keptStrictlyBelow: "length (keptStrictlyBelow cps) \<le> length cps"
  unfolding keptStrictlyBelow_def
  using length_filter_le[of _ "[0..<length cps]"] by simp


lemma enoughContours_wraps: "enoughContours [] 65536 65536"
  by (simp add: enoughContours_def int32_def)

lemma takeRow_mset:
  assumes "takeRow W iw cs = (row, rest)"
  shows "mset row + mset rest = mset cs"
proof -
  let ?s = "sort_key (\<lambda>p. pointToLineDistance p (findTopLeft cs) (findTopRight cs iw)) cs"
  have "row = sort_key (\<lambda>pt. fst (toPoint pt)) (take (nat W) ?s)"
    and "rest = drop (length (take (nat W) ?s)) ?s"
    using assms by (simp_all add: takeRow_def Let_def)
  then have "mset row + mset rest = mset (take (nat W) ?s) + mset (drop (nat W) ?s)"
    by (simp add: drop_take min_def)
  also have "\<dots> = mset ?s"
    by (metis append_take_drop_id mset_append)
  finally show ?thesis by simp
qed

lemma sortPatchesLoop_returns_mset:
  assumes "1 \<le> W"
  shows "\<exists>out. sortPatchesLoop W iw cs acc = Some out \<and> mset out = mset acc + mset cs"
proof (induction "length cs" arbitrary: cs acc rule: less_induct)
  case less
  show ?case
  proof (cases "cs = []")
    case True
    then show ?thesis by (subst sortPatchesLoop.simps) simp
  next
    case False
    obtain row rest where tr: "takeRow W iw cs = (row, rest)"
      by (cases "takeRow W iw cs") auto
    note l = takeRow_lengths[OF tr]
    have pos: "0 < min (nat W) (length cs)" using assms False by simp
    then have "length rest < length cs" using l(2) False by simp
    from less[OF this, of "acc @ row"]
    obtain out where out: "sortPatchesLoop W iw rest (acc @ row) = Some out"
      "mset out = mset (acc @ row) + mset rest" by blast
    have "sortPatchesLoop W iw cs acc = Some out"
      using False by (subst sortPatchesLoop.simps) (simp add: tr out(1))
    moreover have "mset out = mset acc + mset cs"
      using out(2) takeRow_mset[OF tr] by (simp add: add.assoc)
    ultimately show ?thesis by blast
  qed
qed

lemma find_by_centroid:
  assumes "distinct (map centroid cps)" "cp \<in> set cps"
  shows "find (\<lambda>q. centroid q = centroid cp) cps = Some cp"
  using assms
proof (induction cps)
  case Nil
  then show ?case by simp
next
  case (Cons a cps)
  show ?case
  proof (cases "a = cp")
    case True
    then show ?thesis by simp
  next
    case False
    then have in_rest: "cp \<in> set cps" using Cons.prems by simp
    then have "centroid a \<noteq> centroid cp" using Cons.prems(1) by auto
    then show ?thesis using Cons.IH in_rest Cons.prems(1) by simp
  qed
qed

lemma reorderPatches_map:
  assumes "distinct (map centroid cps)" "set cs \<subseteq> centroid ` set cps"
  shows "reorderPatches cps cs = map (patchOfCentroid cps) cs"
  using assms(2)
proof (induction cs)
  case Nil
  then show ?case by (simp add: reorderPatches_def)
next
  case (Cons c cs)
  then obtain cp where cp: "cp \<in> set cps" "c = centroid cp" by auto
  have "find (\<lambda>q. centroid q = c) cps = Some cp"
    unfolding cp(2) by (rule find_by_centroid[OF assms(1) cp(1)])
  moreover have "reorderPatches cps cs = map (patchOfCentroid cps) cs"
    using Cons by simp
  ultimately show ?case
    by (simp add: reorderPatches_def patchOfCentroid_def)
qed

lemma sortPatches_permutes:
  assumes "1 \<le> W" "distinct (map centroid cps)"
  shows "\<exists>ps. sortPatches cps W iw = Some ps \<and> mset ps = mset cps"
proof -
  from sortPatchesLoop_returns_mset[OF assms(1), of iw "map centroid cps" "[]"]
  obtain out where out: "sortPatchesLoop W iw (map centroid cps) [] = Some out"
    "mset out = mset (map centroid cps)" by auto
  have "set out = centroid ` set cps"
    using mset_eq_setD[OF out(2)] by simp
  then have re: "reorderPatches cps out = map (patchOfCentroid cps) out"
    by (intro reorderPatches_map[OF assms(2)]) simp
  have inverse_find: "patchOfCentroid cps (centroid cp) = cp" if "cp \<in> set cps" for cp
    using find_by_centroid[OF assms(2) that] by (simp add: patchOfCentroid_def)
  have "mset (map (patchOfCentroid cps) out) = image_mset (patchOfCentroid cps) (mset (map centroid cps))"
    using out(2) by (metis mset_map)
  also have "\<dots> = image_mset (\<lambda>cp. patchOfCentroid cps (centroid cp)) (mset cps)"
    by (simp add: image_mset.compositionality comp_def)
  also have "\<dots> = image_mset (\<lambda>cp. cp) (mset cps)"
    by (rule image_mset_cong) (simp add: inverse_find)
  finally have "mset (reorderPatches cps out) = mset cps" by (simp add: re)
  then show ?thesis by (simp add: sortPatches_def out(1))
qed

lemma distinct_kept:
  assumes "distinct (map centroid cps)"
  shows "distinct (map centroid (keptStrictlyBelow cps))"
proof -
  let ?is = "filter (\<lambda>i. nearestDistance cps i < 2 * medianNearestDistance cps) [0..<length cps]"
  have "map centroid (keptStrictlyBelow cps) = map (\<lambda>i. map centroid cps ! i) ?is"
    by (simp add: keptStrictlyBelow_def)
  moreover have "distinct (map (\<lambda>i. map centroid cps ! i) ?is)"
  proof (rule iffD2[OF distinct_map], intro conjI)
    show "distinct ?is" by simp
    show "inj_on (\<lambda>i. map centroid cps ! i) (set ?is)"
      using assms by (auto simp: inj_on_def nth_eq_iff_index_eq simp del: nth_map)
  qed
  ultimately show ?thesis by simp
qed

lemma detectColorChart_found:
  assumes "findChart cc W H [1..<length (stats cc)] = Some contours"
    and "filterPatches cv (real_of_int (int32 (bwCols cc * bwRows cc))) contours = Inr cpl"
    and "1 \<le> W"
  shows "\<exists>ps. detectColorChart cv cc W H = Some (Inr ps) \<and> length ps \<le> length cpl"
proof (cases "cpl = []")
  case True
  then show ?thesis
    unfolding detectColorChart_def assms(1) option.case assms(2) by simp
next
  case False
  then have clean: "removeContourOutliers cpl = Inr (keptStrictlyBelow cpl)"
    by (rule removeContourOutliers_eq)
  from sortPatches_returns[OF assms(3), of "keptStrictlyBelow cpl" "bwCols cc"]
  obtain ps where ps: "sortPatches (keptStrictlyBelow cpl) W (bwCols cc) = Some ps"
    "length ps \<le> length (keptStrictlyBelow cpl)" by blast
  have "detectColorChart cv cc W H = Some (Inr ps)"
    unfolding detectColorChart_def assms(1) option.case assms(2)
    using False by (simp add: clean ps(1))
  moreover have "length ps \<le> length cpl"
    using ps(2) length_keptStrictlyBelow[of cpl] by simp
  ultimately show ?thesis by blast
qed

lemma chartScene_labels: "[1..<length (stats chartScene)] = [1]"
  by (simp add: chartScene_def upt_conv_Cons)

lemma noiseScene_labels: "[1..<length (stats noiseScene)] = [1]"
  by (simp add: noiseScene_def upt_conv_Cons)

lemma findChart_chartScene:
  "findChart chartScene 6 4 [1..<length (stats chartScene)] = Some (replicate 24 (ring 0))"
  unfolding chartScene_labels
  by (simp add: chartScene_def Let_def enoughContours_def kFracErrorX_def int32_def)

lemma noiseScene_unqualified:
  "list_all (\<lambda>label. \<not> labelQualifies noiseScene 6 4 label) [1..<length (stats noiseScene)]"
  unfolding noiseScene_labels
  by (simp add: labelQualifies_def noiseScene_def Let_def int32_def)

lemma toInt_ten: "toInt 10 = Inr 10"
  by (simp add: toInt_def)

lemma filterPatches_rings: "filterPatches cv0 imSize (replicate n (ring 0)) = Inr []"
  by (induction n)
    (simp_all add: cv0_def toInt_ten toInt_small aspectRatioOf_def toInt_def ring_def kNumEdges_def)

lemma detectColorChart_survivors:
  assumes "findChart cc W H [1..<length (stats cc)] = Some contours"
    and "filterPatches cv (real_of_int (int32 (bwCols cc * bwRows cc))) contours = Inr cpl"
    and "1 \<le> W"
    and "distinct (map centroid cpl)"
  shows "\<exists>ps. detectColorChart cv cc W H = Some (Inr ps) \<and> mset ps = mset (keptStrictlyBelow cpl)"
proof (cases "cpl = []")
  case True
  then show ?thesis
    unfolding detectColorChart_def assms(1) option.case assms(2)
    by (simp add: keptStrictlyBelow_def)
next
  case False
  then have clean: "removeContourOutliers cpl = Inr (keptStrictlyBelow cpl)"
    by (rule removeContourOutliers_eq)
  from sortPatches_permutes[OF assms(3) distinct_kept[OF assms(4)], of "bwCols cc"]
  obtain ps where ps: "sortPatches (keptStrictlyBelow cpl) W (bwCols cc) = Some ps"
    "mset ps = mset (keptStrictlyBelow cpl)" by blast
  have "detectColorChart cv cc W H = Some (Inr ps)"
    unfolding detectColorChart_def assms(1) option.case assms(2)
    using False by (simp add: clean ps(1))
  then show ?thesis using ps(2) by blast
qed

lemma quadScene_labels: "[1..<length (stats quadScene)] = [1]"
  by (simp add: quadScene_def chartScene_def upt_conv_Cons)

lemma findChart_quadScene:
  "findChart quadScene 6 4 [1..<length (stats quadScene)] =
     Some (quad 420 # quad 400 # quad 460 # replicate 21 (ring 0))"
  unfolding quadScene_labels
  by (simp add: quadScene_def chartScene_def Let_def enoughContours_def kFracErrorX_def int32_def)

lemma filterPatches_chart_rings: "filterPatches cvChart imSize (replicate n (ring 0)) = Inr []"
  by (induction n)
    (simp_all add: cvChart_def cv0_def toInt_ten toInt_small aspectRatioOf_def toInt_def ring_def
      kNumEdges_def)

lemma cvChart_fields:
  "minAreaRect cvChart c = ((real_of_int (fst (hd c)) + 5, 500), 10, 10)"
  "momentsM00 cvChart c = 100"
  "isContourConvex cvChart c"
  "boundingRectMask cvChart c = Mat8U [[255]]"
  by (simp_all add: cvChart_def cv0_def)

lemma filterPatches_quadScene:
  "filterPatches cvChart (real_of_int (int32 (bwCols quadScene * bwRows quadScene)))
     (quad 420 # quad 400 # quad 460 # replicate 21 (ring 0)) =
   Inr [pointPatch 420 500, pointPatch 400 500, pointPatch 460 500]"
  by (simp add: filterPatches_chart_rings cvChart_fields quad_def quadScene_def chartScene_def
      int32_def toInt_ten toInt_small aspectRatioOf_def toInt_def kNumEdges_def
      kMaxAspectRatio_def pointPatch_def)

lemma norm2_horizontal: "norm2 (psub (a, y) (b, y)) = \<bar>a - b\<bar>"
  by (simp add: norm2_def psub_def)

lemma FLT_MAX_above_sixty: "60 < FLT_MAX"
  by (simp add: FLT_MAX_def)

lemma threeQuads_indices:
  "[0..<length [pointPatch 420 500, pointPatch 400 500, pointPatch 460 500]] = [0, 1, 2]"
  by (simp add: upt_conv_Cons)

lemma threeQuads_nearest:
  "map (nearestDistance [pointPatch 420 500, pointPatch 400 500, pointPatch 460 500]) [0, 1, 2] =
     [20, 20, 40]"
  unfolding nearestDistance_def threeQuads_indices
  using FLT_MAX_above_sixty
  by (simp add: pointPatch_def norm2_horizontal)

lemma threeQuads_kept:
  "keptStrictlyBelow [pointPatch 420 500, pointPatch 400 500, pointPatch 460 500] =
     [pointPatch 420 500, pointPatch 400 500]"
  unfolding keptStrictlyBelow_def medianNearestDistance_def upperMedian_def threeQuads_indices
    threeQuads_nearest
  using threeQuads_nearest by simp

lemma threeQuads_distinct:
  "distinct (map centroid [pointPatch 420 500, pointPatch 400 500, pointPatch 460 500])"
  by (simp add: pointPatch_def)

lemma cvRound_whole: "cvRound 400 = 400" "cvRound 420 = 420"
  by (simp_all add: cvRound_def)

lemma takeRow_two:
  "takeRow 6 1000 [(420, 500), (400, 500)] = ([(400, 500), (420, 500)], [])"
  by (simp add: takeRow_def findTopLeft_def findTopRight_def pointToLineDistance_def norm2_def
      psub_def toPoint_def cvRound_whole FLT_MAX_def Let_def)

lemma sortPatches_two:
  "sortPatches [pointPatch 420 500, pointPatch 400 500] 6 1000 =
     Some [pointPatch 400 500, pointPatch 420 500]"
proof -
  have "sortPatchesLoop 6 1000 [(420, 500), (400, 500)] [] = Some [(400, 500), (420, 500)]"
    by (subst sortPatchesLoop.simps, simp add: takeRow_two)
       (subst sortPatchesLoop.simps, simp)
  then show ?thesis
    by (simp add: sortPatches_def reorderPatches_def pointPatch_def)
qed

lemma detectColorChart_quadScene:
  "detectColorChart cvChart quadScene 6 4 = Some (Inr [pointPatch 400 500, pointPatch 420 500])"
proof -
  have clean: "removeContourOutliers [pointPatch 420 500, pointPatch 400 500, pointPatch 460 500] =
      Inr [pointPatch 420 500, pointPatch 400 500]"
    using removeContourOutliers_eq[of "[pointPatch 420 500, pointPatch 400 500, pointPatch 460 500]"]
    by (simp add: threeQuads_kept)
  have cols: "bwCols quadScene = 1000" by (simp add: quadScene_def chartScene_def)
  show ?thesis
    unfolding detectColorChart_def findChart_quadScene option.case filterPatches_quadScene
    by (simp add: clean cols sortPatches_two)
qed

text \<open>
  C2, as the code has it: \<^verbatim>\<open>detectColorChart\<close> throws "No chart found" where no label
  passes the tests of the loop over the connected components. Where a label passes and
  the patch filter runs through, the call throws nothing, whatever the number of patches
  that survive: for a positive \<open>numSquaresW\<close> it returns a list of patches, no longer than
  the list of the patches that passed the filter; and where the centroids of these are
  pairwise distinct, the list returned holds exactly the patches that pass the filter and
  the rejection of outliers, each once.
\<close>

theorem detectColorChart_failure:
  "(list_all (\<lambda>label. \<not> labelQualifies cc numSquaresW numSquaresH label)
      [1..<length (stats cc)] \<longrightarrow>
      detectColorChart cv cc numSquaresW numSquaresH =
        Some (Inl (VrCamException ''No chart found''))) \<and>
   (findChart cc numSquaresW numSquaresH [1..<length (stats cc)] = Some contours \<and>
    filterPatches cv (real_of_int (int32 (bwCols cc * bwRows cc))) contours = Inr colorPatchList \<and>
    1 \<le> numSquaresW \<longrightarrow>
      (\<exists>ps. detectColorChart cv cc numSquaresW numSquaresH = Some (Inr ps) \<and>
            length ps \<le> length colorPatchList)) \<and>
   (findChart cc numSquaresW numSquaresH [1..<length (stats cc)] = Some contours \<and>
    filterPatches cv (real_of_int (int32 (bwCols cc * bwRows cc))) contours = Inr colorPatchList \<and>
    1 \<le> numSquaresW \<and> distinct (map centroid colorPatchList) \<longrightarrow>
      (\<exists>ps. detectColorChart cv cc numSquaresW numSquaresH = Some (Inr ps) \<and>
            mset ps = mset (keptStrictlyBelow colorPatchList)))"
proof (intro conjI impI)
  assume "list_all (\<lambda>label. \<not> labelQualifies cc numSquaresW numSquaresH label)
      [1..<length (stats cc)]"
  then have "findChart cc numSquaresW numSquaresH [1..<length (stats cc)] = None"
    by (rule findChart_none)
  then show "detectColorChart cv cc numSquaresW numSquaresH =
      Some (Inl (VrCamException ''No chart found''))"
    by (simp add: detectColorChart_def)
next
  assume "findChart cc numSquaresW numSquaresH [1..<length (stats cc)] = Some contours \<and>
    filterPatches cv (real_of_int (int32 (bwCols cc * bwRows cc))) contours = Inr colorPatchList \<and>
    1 \<le> numSquaresW"
  then show "\<exists>ps. detectColorChart cv cc numSquaresW numSquaresH = Some (Inr ps) \<and>
      length ps \<le> length colorPatchList"
    using detectColorChart_found by blast
next
  assume "findChart cc numSquaresW numSquaresH [1..<length (stats cc)] = Some contours \<and>
    filterPatches cv (real_of_int (int32 (bwCols cc * bwRows cc))) contours = Inr colorPatchList \<and>
    1 \<le> numSquaresW \<and> distinct (map centroid colorPatchList)"
  then show "\<exists>ps. detectColorChart cv cc numSquaresW numSquaresH = Some (Inr ps) \<and>
      mset ps = mset (keptStrictlyBelow colorPatchList)"
    using detectColorChart_survivors by blast
qed

theorem detectColorChart_failure_witness:
  "list_all (\<lambda>label. \<not> labelQualifies noiseScene 6 4 label) [1..<length (stats noiseScene)] \<and>
   detectColorChart cv0 noiseScene 6 4 = Some (Inl (VrCamException ''No chart found'')) \<and>
   findChart chartScene 6 4 [1..<length (stats chartScene)] = Some (replicate 24 (ring 0)) \<and>
   filterPatches cv0 (real_of_int (int32 (bwCols chartScene * bwRows chartScene)))
     (replicate 24 (ring 0)) = Inr [] \<and>
   detectColorChart cv0 chartScene 6 4 = Some (Inr []) \<and>
   findChart quadScene 6 4 [1..<length (stats quadScene)] =
     Some (quad 420 # quad 400 # quad 460 # replicate 21 (ring 0)) \<and>
   filterPatches cvChart (real_of_int (int32 (bwCols quadScene * bwRows quadScene)))
     (quad 420 # quad 400 # quad 460 # replicate 21 (ring 0)) =
     Inr [pointPatch 420 500, pointPatch 400 500, pointPatch 460 500] \<and>
   (\<exists>ps. detectColorChart cvChart quadScene 6 4 = Some (Inr ps) \<and>
      mset ps = mset [pointPatch 420 500, pointPatch 400 500]) \<and>
   detectColorChart cvChart quadScene 6 4 = Some (Inr [pointPatch 400 500, pointPatch 420 500])"
proof -
  have thrown: "detectColorChart cv0 noiseScene 6 4 = Some (Inl (VrCamException ''No chart found''))"
    using detectColorChart_failure[of noiseScene 6 4 cv0] noiseScene_unqualified by simp
  have returned: "detectColorChart cv0 chartScene 6 4 = Some (Inr [])"
    using detectColorChart_failure[of chartScene 6 4 cv0 "replicate 24 (ring 0)" "[]"]
      findChart_chartScene filterPatches_rings by simp
  have survivors: "\<exists>ps. detectColorChart cvChart quadScene 6 4 = Some (Inr ps) \<and>
      mset ps = mset [pointPatch 420 500, pointPatch 400 500]"
    using detectColorChart_failure[of quadScene 6 4 cvChart
        "quad 420 # quad 400 # quad 460 # replicate 21 (ring 0)"
        "[pointPatch 420 500, pointPatch 400 500, pointPatch 460 500]"]
      findChart_quadScene filterPatches_quadScene threeQuads_distinct
    unfolding threeQuads_kept by simp
  from noiseScene_unqualified thrown findChart_chartScene filterPatches_rings returned
    findChart_quadScene filterPatches_quadScene survivors detectColorChart_quadScene
  show ?thesis by simp
qed

text \<open>
  C2, as the claim states it, fails: on a centred component with 24 contours of which none
  passes the patch filter, fewer than 6 times 4 patches survive and the call returns the
  empty list.
\<close>

theorem detectColorChart_too_few_counterexample:
  "filterPatches cv0 (real_of_int (int32 (bwCols chartScene * bwRows chartScene)))
     (replicate 24 (ring 0)) = Inr [] \<and>
   length ([] :: ColorPatch list) < 6 * 4 \<and>
   detectColorChart cv0 chartScene 6 4 = Some (Inr [])"
  unfolding detectColorChart_def findChart_chartScene option.case filterPatches_rings by simp

end
